theory Spec2Isabelle
  imports Complex_Main "HOL-Library.Multiset"
begin

section \<open>JavaScript values used by the exporter\<close>

text \<open>
  A JavaScript number is modelled as \<open>real option\<close>: \<open>None\<close> is NaN. The exporter only
  computes with time values (integral milliseconds) and one quotient of a time difference
  by the constant 86400000, so no rounding is involved in the comparisons below.
\<close>

type_synonym number = "real option"

definition num_eq :: "number \<Rightarrow> number \<Rightarrow> bool" where
  "num_eq a b = (case (a, b) of (Some x, Some y) \<Rightarrow> x = y | _ \<Rightarrow> False)"

definition num_lt :: "number \<Rightarrow> number \<Rightarrow> bool" where
  "num_lt a b = (case (a, b) of (Some x, Some y) \<Rightarrow> x < y | _ \<Rightarrow> False)"

definition num_le :: "number \<Rightarrow> number \<Rightarrow> bool" where
  "num_le a b = (case (a, b) of (Some x, Some y) \<Rightarrow> x \<le> y | _ \<Rightarrow> False)"

definition num_sub :: "number \<Rightarrow> number \<Rightarrow> number" where
  "num_sub a b = (case (a, b) of (Some x, Some y) \<Rightarrow> Some (x - y) | _ \<Rightarrow> None)"

definition num_div :: "number \<Rightarrow> real \<Rightarrow> number" where
  "num_div a c = (case a of Some x \<Rightarrow> Some (x / c) | None \<Rightarrow> None)"

text \<open>
  A \<open>Date\<close> object holds a time value: milliseconds since the epoch, or NaN
  (\<open>InvalidDate\<close>). A \<open>Date | null\<close> of the source is a \<open>Date option\<close>.
\<close>

datatype Date = InvalidDate | TimeValue int

definition getTime :: "Date \<Rightarrow> number" where
  "getTime d = (case d of InvalidDate \<Rightarrow> None | TimeValue t \<Rightarrow> Some (real_of_int t))"

text \<open>Relational comparison of two Date objects (\<open>a < b\<close>, \<open>a >= b\<close>, \<open>a <= b\<close>) compares
  their time values as numbers; any comparison with NaN is false.\<close>

definition date_lt :: "Date \<Rightarrow> Date \<Rightarrow> bool" where
  "date_lt a b = num_lt (getTime a) (getTime b)"

definition date_le :: "Date \<Rightarrow> Date \<Rightarrow> bool" where
  "date_le a b = num_le (getTime a) (getTime b)"

definition date_ge :: "Date \<Rightarrow> Date \<Rightarrow> bool" where
  "date_ge a b = num_le (getTime b) (getTime a)"

subsection \<open>The calendar of ECMAScript Date objects\<close>

text \<open>
  The abstract operations of the language standard, on integral time values.
  \<open>LocalTZA t isUTC\<close>, the offset of the local time zone in milliseconds, belongs to the
  host, so it is a parameter.
\<close>

type_synonym tza = "int \<Rightarrow> bool \<Rightarrow> int"

definition msPerDay :: int where
  "msPerDay = 86400000"

definition Day :: "int \<Rightarrow> int" where
  "Day t = t div msPerDay"

definition TimeWithinDay :: "int \<Rightarrow> int" where
  "TimeWithinDay t = t mod msPerDay"

definition DaysInYear :: "int \<Rightarrow> int" where
  "DaysInYear y =
     (if y mod 4 \<noteq> 0 then 365 else if y mod 100 \<noteq> 0 then 366
      else if y mod 400 \<noteq> 0 then 365 else 366)"

definition DayFromYear :: "int \<Rightarrow> int" where
  "DayFromYear y =
     365 * (y - 1970) + (y - 1969) div 4 - (y - 1901) div 100 + (y - 1601) div 400"

text \<open>
  \<open>YearFromDay d\<close> is the year \<open>y\<close> with \<open>DayFromYear y \<le> d < DayFromYear (y + 1)\<close>,
  computed through the 400-, 100-, 4- and 1-year cycles counted from 1 January 1601.
\<close>

definition YearFromDay :: "int \<Rightarrow> int" where
  "YearFromDay d =
     (let n = d + 134774;
          n400 = n div 146097; r400 = n mod 146097;
          n100 = min 3 (r400 div 36524); r100 = r400 - n100 * 36524;
          n4 = r100 div 1461; r4 = r100 mod 1461;
          n1 = min 3 (r4 div 365)
      in 1601 + 400 * n400 + 100 * n100 + 4 * n4 + n1)"

definition YearFromTime :: "int \<Rightarrow> int" where
  "YearFromTime t = YearFromDay (Day t)"

definition InLeapYear :: "int \<Rightarrow> int" where
  "InLeapYear t = (if DaysInYear (YearFromTime t) = 366 then 1 else 0)"

definition DayWithinYear :: "int \<Rightarrow> int" where
  "DayWithinYear t = Day t - DayFromYear (YearFromTime t)"

definition MonthFromTime :: "int \<Rightarrow> int" where
  "MonthFromTime t =
     (let d = DayWithinYear t; l = InLeapYear t in
      if d < 31 then 0 else if d < 59 + l then 1 else if d < 90 + l then 2
      else if d < 120 + l then 3 else if d < 151 + l then 4 else if d < 181 + l then 5
      else if d < 212 + l then 6 else if d < 243 + l then 7 else if d < 273 + l then 8
      else if d < 304 + l then 9 else if d < 334 + l then 10 else 11)"

definition DateFromTime :: "int \<Rightarrow> int" where
  "DateFromTime t =
     (let d = DayWithinYear t; l = InLeapYear t; m = MonthFromTime t in
      if m = 0 then d + 1 else if m = 1 then d - 30 else if m = 2 then d - 58 - l
      else if m = 3 then d - 89 - l else if m = 4 then d - 119 - l
      else if m = 5 then d - 150 - l else if m = 6 then d - 180 - l
      else if m = 7 then d - 211 - l else if m = 8 then d - 242 - l
      else if m = 9 then d - 272 - l else if m = 10 then d - 303 - l else d - 333 - l)"

definition LocalTime :: "tza \<Rightarrow> int \<Rightarrow> int" where
  "LocalTime tz t = t + tz t True"

definition UTC :: "tza \<Rightarrow> int \<Rightarrow> int" where
  "UTC tz t = t - tz t False"

definition getFullYear :: "tza \<Rightarrow> Date \<Rightarrow> number" where
  "getFullYear tz d =
     (case d of InvalidDate \<Rightarrow> None
      | TimeValue t \<Rightarrow> Some (real_of_int (YearFromTime (LocalTime tz t))))"

definition getMonth :: "tza \<Rightarrow> Date \<Rightarrow> number" where
  "getMonth tz d =
     (case d of InvalidDate \<Rightarrow> None
      | TimeValue t \<Rightarrow> Some (real_of_int (MonthFromTime (LocalTime tz t))))"

text \<open>Days before month \<open>m\<close> (0 to 11) in a year with \<open>l\<close> leap days.\<close>

definition daysBeforeMonth :: "int \<Rightarrow> int \<Rightarrow> int" where
  "daysBeforeMonth l m =
     (if m = 0 then 0 else if m = 1 then 31 else if m = 2 then 59 + l
      else if m = 3 then 90 + l else if m = 4 then 120 + l else if m = 5 then 151 + l
      else if m = 6 then 181 + l else if m = 7 then 212 + l else if m = 8 then 243 + l
      else if m = 9 then 273 + l else if m = 10 then 304 + l else 334 + l)"

definition MakeDay :: "int \<Rightarrow> int \<Rightarrow> int \<Rightarrow> int" where
  "MakeDay year month date =
     (let ym = year + month div 12; mn = month mod 12;
          l = (if DaysInYear ym = 366 then 1 else 0)
      in DayFromYear ym + daysBeforeMonth l mn + date - 1)"

definition TimeClip :: "int \<Rightarrow> Date" where
  "TimeClip t = (if \<bar>t\<bar> > 8640000000000000 then InvalidDate else TimeValue t)"

text \<open>\<open>new Date(year, monthIndex, day)\<close> on integral arguments: local midnight of that day;
  a year from 0 to 99 stands for 1900 + year.\<close>

definition newDate :: "tza \<Rightarrow> int \<Rightarrow> int \<Rightarrow> int \<Rightarrow> Date" where
  "newDate tz year monthIndex day =
     (let yr = (if 0 \<le> year \<and> year \<le> 99 then 1900 + year else year)
      in TimeClip (UTC tz (MakeDay yr monthIndex day * msPerDay)))"

section \<open>The issue operation classifier\<close>

text \<open>The helper \<open>inSameMonth\<close> of \<open>determineOperation\<close>: same local year and month.\<close>

definition inSameMonth :: "tza \<Rightarrow> Date \<Rightarrow> Date \<Rightarrow> bool" where
  "inSameMonth tz date1 date2 =
     (num_eq (getFullYear tz date1) (getFullYear tz date2) \<and>
      num_eq (getMonth tz date1) (getMonth tz date2))"

definition determineOperation ::
  "tza \<Rightarrow> Date \<Rightarrow> Date \<Rightarrow> Date option \<Rightarrow> string option \<Rightarrow> string" where
  "determineOperation tz updatedAt createdAt closedAt stateReason =
     (let closeOperation =
            (if stateReason = Some ''reopened'' then ''Reopened''
             else if stateReason = Some ''completed'' then ''Completed''
             else if stateReason = Some ''not_planned'' then ''Ignored''
             else ''Closed'')
      in case closedAt of
           Some c \<Rightarrow>
             if inSameMonth tz createdAt c then ''Created and '' @ closeOperation
             else closeOperation
         | None \<Rightarrow>
             if inSameMonth tz createdAt updatedAt then
               if num_eq (getTime createdAt) (getTime updatedAt) then ''Created''
               else
                 let daysBetween =
                       num_div (num_sub (getTime updatedAt) (getTime createdAt))
                         (1000 * 60 * 60 * 24)
                 in if num_le (Some 1) daysBetween then ''Updated a New Issue''
                    else ''Created''
             else if date_lt createdAt updatedAt then ''Updated''
             else ''Updated'')"

section \<open>Strings, errors and the log\<close>

text \<open>
  A JavaScript string is a \<open>string\<close>: one \<open>char\<close> for each code unit (the model covers
  the code units up to 255). \<open>length\<close> is the string's \<open>length\<close> and \<open>take n\<close> is
  \<open>substring(0, n)\<close>.
\<close>

definition newline :: char where
  "newline = CHR 0x0A"

definition dquote :: char where
  "dquote = CHR 0x22"

fun join :: "string \<Rightarrow> string list \<Rightarrow> string" where
  "join sep [] = []"
| "join sep [x] = x"
| "join sep (x # y # ys) = x @ sep @ join sep (y # ys)"

definition toLowerCase :: "string \<Rightarrow> string" where
  "toLowerCase s =
     map (\<lambda>c. case map_of (zip ''ABCDEFGHIJKLMNOPQRSTUVWXYZ'' ''abcdefghijklmnopqrstuvwxyz'') c of
               Some l \<Rightarrow> l | None \<Rightarrow> c) s"

text \<open>\<open>s.replace(/c/g, r)\<close> for a single character \<open>c\<close>.\<close>

definition replaceAll :: "char \<Rightarrow> string \<Rightarrow> string \<Rightarrow> string" where
  "replaceAll c r s = concat (map (\<lambda>x. if x = c then r else [x]) s)"

text \<open>Number to string, for the integers the exporter prints.\<close>

function natToString :: "nat \<Rightarrow> string" where
  "natToString n =
     (if n < 10 then [''0123456789'' ! n]
      else natToString (n div 10) @ [''0123456789'' ! (n mod 10)])"
  by pat_completeness auto
termination
  by (relation "measure id") auto

definition toString :: "int \<Rightarrow> string" where
  "toString i = (if i < 0 then ''-'' @ natToString (nat (- i)) else natToString (nat i))"

text \<open>\<open>parseInt(s)\<close> with no radix: leading white space, a sign, an optional \<open>0x\<close>, then
  the longest run of digits; NaN (\<open>None\<close>) when there is none. The result is a double:
  from \<open>2 ^ 53\<close> on, the value of the digits is rounded to 53 significant bits, ties to
  even (\<open>toDouble\<close>). A value beyond the largest double, which gives Infinity, is not
  modelled.\<close>

function bitLength :: "int \<Rightarrow> nat" where
  "bitLength n = (if n \<le> 0 then 0 else Suc (bitLength (n div 2)))"
  by pat_completeness auto
termination
  by (relation "measure nat") auto

definition toDouble :: "int \<Rightarrow> int" where
  "toDouble n =
     (if n < 2 ^ 53 then n
      else
        (let e = bitLength n - 53; q = n div 2 ^ e; r = n mod 2 ^ e; half = 2 ^ (e - 1)
         in if r > half \<or> (r = half \<and> odd q) then (q + 1) * 2 ^ e else q * 2 ^ e))"

definition isWhiteSpace :: "char \<Rightarrow> bool" where
  "isWhiteSpace c = (c \<in> set [CHR 0x09, CHR 0x0A, CHR 0x0B, CHR 0x0C, CHR 0x0D, CHR 0x20, CHR 0xA0])"

definition digitValue :: "nat \<Rightarrow> char \<Rightarrow> nat option" where
  "digitValue radix c =
     (case map_of (zip ''0123456789abcdef'' [0 ..< 16]) c of
        Some d \<Rightarrow> if d < radix then Some d else None
      | None \<Rightarrow>
         (case map_of (zip ''ABCDEF'' [10 ..< 16]) c of
            Some d \<Rightarrow> if d < radix then Some d else None
          | None \<Rightarrow> None))"

fun leadingDigits :: "nat \<Rightarrow> string \<Rightarrow> nat list" where
  "leadingDigits radix [] = []"
| "leadingDigits radix (c # cs) =
     (case digitValue radix c of None \<Rightarrow> [] | Some d \<Rightarrow> d # leadingDigits radix cs)"

definition parseInt :: "string \<Rightarrow> int option" where
  "parseInt s =
     (let s1 = dropWhile isWhiteSpace s;
          sign = (if take 1 s1 = ''-'' then - 1 else 1);
          s2 = (if take 1 s1 = ''-'' \<or> take 1 s1 = ''+'' then drop 1 s1 else s1);
          radix = (if take 2 s2 = ''0x'' \<or> take 2 s2 = ''0X'' then 16 else 10);
          s3 = (if radix = 16 then drop 2 s2 else s2);
          ds = leadingDigits radix s3
      in if ds = [] then None
         else Some (sign * toDouble (foldl (\<lambda>a d. a * int radix + int d) 0 ds)))"

datatype error = Error string | RangeError string

fun error_message :: "error \<Rightarrow> string" where
  "error_message (Error m) = m"
| "error_message (RangeError m) = m"

datatype level = LError | LWarn | LInfo | LDebug

type_synonym logentry = "level \<times> string"

section \<open>Command line\<close>

datatype format = csv | nl

record CommandLineArgs =
  owner :: string
  year :: int
  month :: int
  omitRepo :: "string option"
  shouldReplace :: bool
  format :: format

text \<open>The argument loop of \<open>parseCommandLineArgs\<close>: the state is
  \<open>(omitRepo, format, parsedArgs)\<close>.\<close>

fun parseLoop ::
  "string list \<Rightarrow> string option \<times> format \<times> string list \<Rightarrow>
   error + (string option \<times> format \<times> string list)" where
  "parseLoop [] st = Inr st"
| "parseLoop [a] (om, fmt, parsedArgs) =
     (if a \<noteq> ''--replace'' then Inr (om, fmt, parsedArgs @ [a])
      else Inr (om, fmt, parsedArgs))"
| "parseLoop (a # b # rest) (om, fmt, parsedArgs) =
     (if a = ''--omit'' then parseLoop rest (Some b, fmt, parsedArgs)
      else if a = ''--format'' then
        (let formatArg = toLowerCase b in
         if formatArg \<noteq> ''csv'' \<and> formatArg \<noteq> ''nl''
         then Inl (Error (''Format must be either '' @ [dquote] @ ''csv'' @ [dquote] @ '' or ''
                     @ [dquote] @ ''nl'' @ [dquote]))
         else parseLoop rest (om, if formatArg = ''csv'' then csv else nl, parsedArgs))
      else if a \<noteq> ''--replace'' then parseLoop (b # rest) (om, fmt, parsedArgs @ [a])
      else parseLoop (b # rest) (om, fmt, parsedArgs))"

definition parseCommandLineArgs :: "string list \<Rightarrow> error + CommandLineArgs" where
  "parseCommandLineArgs args =
     (case parseLoop args (None, nl, []) of
        Inl e \<Rightarrow> Inl e
      | Inr (om, fmt, parsedArgs) \<Rightarrow>
          if length parsedArgs \<noteq> 3 then
            Inl (Error ''Usage: <script> <owner> <year> <month> [--omit repo-name] [--format csv|nl] [--replace]'')
          else
            (let yearStr = parsedArgs ! 1; monthStr = parsedArgs ! 2;
                 year = parseInt yearStr; month = parseInt monthStr
             in if year = None \<or> month = None \<or> the month < 1 \<or> the month > 12 then
                  Inl (Error (''Invalid year or month. Month should be between 1 and 12. Supplied year: ''
                         @ yearStr @ '' month: '' @ monthStr))
                else Inr \<lparr>owner = parsedArgs ! 0, year = the year, month = the month,
                          omitRepo = om, shouldReplace = (''--replace'' \<in> set args),
                          format = fmt\<rparr>))"

section \<open>The host and the GitHub client\<close>

text \<open>
  What the JavaScript host decides is a parameter: the time zone, the \<open>en-US\<close> formatting of
  dates and times, the long month name, and the parse of a display string by
  \<open>new Date(string)\<close> (its result for a string that is not in the ISO format is left to the
  implementation by the language standard).
\<close>

record host =
  LocalTZA :: tza
  toLocaleDateString :: "Date \<Rightarrow> string"
  toLocaleTimeString :: "Date \<Rightarrow> string"
  Date_parse :: "string \<Rightarrow> Date"
  monthLong :: "Date \<Rightarrow> string"

text \<open>
  An ISO timestamp string is represented by the time value it denotes: \<open>toISOString\<close>
  throws a RangeError on an invalid date, and \<open>new Date(iso)\<close> gives the time value back.
  The timestamps of the API's records are held the same way, as the \<open>Date\<close> that
  \<open>new Date(...)\<close> makes of them, with \<open>None\<close> for an absent (or empty) field.
\<close>

datatype isostring = ISO int

definition toISOString :: "Date \<Rightarrow> error + isostring" where
  "toISOString d =
     (case d of InvalidDate \<Rightarrow> Inl (RangeError ''Invalid time value'')
      | TimeValue t \<Rightarrow> Inr (ISO t))"

fun newDateISO :: "isostring \<Rightarrow> Date" where
  "newDateISO (ISO t) = TimeValue t"

record CommitStub =
  sha :: string

record CommitDetail =
  html_url :: string
  author_date :: "Date option"
  author_name :: "string option"
  commit_message :: string
  stats_additions :: "int option"
  stats_deletions :: "int option"
  detail_files :: "string list option"

record ApiIssue =
  api_updated_at :: "Date option"
  api_created_at :: "Date option"
  api_closed_at :: "Date option"
  api_state_reason :: "string option"
  api_assignee_login :: "string option"
  api_title :: string
  api_number :: int
  api_state :: string
  api_user_login :: "string option"
  api_body :: "string option"
  api_labels :: "string list"
  api_milestone_title :: "string option"

text \<open>The client: each call returns its \<open>data\<close> or throws. \<open>listCommits\<close> takes owner, repo,
  since, until and the page number (\<open>per_page\<close> is always 100); \<open>listForRepo\<close> takes owner,
  repo, since and until (\<open>per_page\<close> 100, \<open>state\<close> all).\<close>

record octokit =
  listCommits :: "string \<Rightarrow> string \<Rightarrow> isostring \<Rightarrow> isostring \<Rightarrow> nat \<Rightarrow> error + CommitStub list"
  getCommit :: "string \<Rightarrow> string \<Rightarrow> string \<Rightarrow> error + CommitDetail"
  listForRepo :: "string \<Rightarrow> string \<Rightarrow> isostring \<Rightarrow> isostring \<Rightarrow> error + ApiIssue list"
  getAuthenticated :: "error + string"
  listForAuthenticatedUser :: "error + string list"

text \<open>
  \<open>Array.prototype.sort\<close> with a comparator: a stable sort that puts \<open>b\<close> before \<open>a\<close> when
  \<open>cmp a b > 0\<close>; a comparator result of NaN counts as 0.
\<close>

fun sortInsert :: "('a \<Rightarrow> 'a \<Rightarrow> number) \<Rightarrow> 'a \<Rightarrow> 'a list \<Rightarrow> 'a list" where
  "sortInsert cmp x [] = [x]"
| "sortInsert cmp x (y # ys) =
     (if num_lt (Some 0) (cmp x y) then y # sortInsert cmp x ys else x # y # ys)"

fun sort_js :: "('a \<Rightarrow> 'a \<Rightarrow> number) \<Rightarrow> 'a list \<Rightarrow> 'a list" where
  "sort_js cmp [] = []"
| "sort_js cmp (x # xs) = sortInsert cmp x (sort_js cmp xs)"

text \<open>The date range both fetchers start with: \<open>startDate\<close> and \<open>endDate\<close>.\<close>

definition dateRange :: "host \<Rightarrow> int \<Rightarrow> int \<Rightarrow> error + (isostring \<times> isostring)" where
  "dateRange h yr mo =
     (case toISOString (newDate (LocalTZA h) yr (mo - 1) 1) of
        Inl e \<Rightarrow> Inl e
      | Inr startDate \<Rightarrow>
          (case toISOString (newDate (LocalTZA h) yr mo 0) of
             Inl e \<Rightarrow> Inl e
           | Inr endDate \<Rightarrow> Inr (startDate, endDate)))"

section \<open>Commits\<close>

record Commit =
  url :: string
  date :: string
  repo :: string
  message :: string
  author :: string
  additions :: int
  deletions :: int
  files :: "string list"

text \<open>
  The pagination loop of \<open>getMonthlyCommitActivity\<close>. \<open>fetch\<close> is \<open>listCommits\<close> with its
  other arguments fixed; the last component of the result is the list of the page numbers
  requested, in order. The loop need not end, so the result is an \<open>option\<close>.
\<close>

partial_function (option) fetchPages ::
  "(nat \<Rightarrow> error + CommitStub list) \<Rightarrow> nat \<Rightarrow> CommitStub list \<Rightarrow> nat list \<Rightarrow>
   ((error + CommitStub list) \<times> nat list) option" where
  "fetchPages fetch page allCommits requested =
     (case fetch page of
        Inl e \<Rightarrow> Some (Inl e, requested @ [page])
      | Inr data \<Rightarrow>
          if length data < 100 then Some (Inr (allCommits @ data), requested @ [page])
          else fetchPages fetch (page + 1) (allCommits @ data) (requested @ [page]))"

declare fetchPages.simps [code]

definition displayDate :: "host \<Rightarrow> Date \<Rightarrow> string" where
  "displayDate h d = toLocaleDateString h d @ '' '' @ toLocaleTimeString h d"

definition toCommit :: "host \<Rightarrow> string \<Rightarrow> CommitDetail \<Rightarrow> Commit" where
  "toCommit h rep d =
     \<lparr>url = html_url d,
      date = displayDate h (case author_date d of None \<Rightarrow> TimeValue 0 | Some t \<Rightarrow> t),
      repo = rep,
      message = commit_message d,
      author = (case author_name d of None \<Rightarrow> [] | Some n \<Rightarrow> n),
      additions = (case stats_additions d of None \<Rightarrow> 0 | Some n \<Rightarrow> n),
      deletions = (case stats_deletions d of None \<Rightarrow> 0 | Some n \<Rightarrow> n),
      files = (case detail_files d of None \<Rightarrow> [] | Some fs \<Rightarrow> fs)\<rparr>"

text \<open>The detail loop: a commit whose detail fetch throws is logged and left out.\<close>

fun processCommits ::
  "host \<Rightarrow> octokit \<Rightarrow> string \<Rightarrow> string \<Rightarrow> CommitStub list \<Rightarrow> Commit list \<times> logentry list" where
  "processCommits h api own rep [] = ([], [])"
| "processCommits h api own rep (commit # rest) =
     (let (processedCommits, logs) = processCommits h api own rep rest in
      case getCommit api own rep (sha commit) of
        Inl e \<Rightarrow>
          (processedCommits,
           (LError, ''Error fetching details for commit '' @ sha commit @ '', skipping... ''
              @ error_message e) # logs)
      | Inr commitDetail \<Rightarrow> (toCommit h rep commitDetail # processedCommits, logs))"

definition compareCommits :: "host \<Rightarrow> Commit \<Rightarrow> Commit \<Rightarrow> number" where
  "compareCommits h a b =
     (let dateA = Date_parse h (date a); dateB = Date_parse h (date b)
      in num_sub (getTime dateA) (getTime dateB))"

definition getMonthlyCommitActivity ::
  "host \<Rightarrow> octokit \<Rightarrow> string \<Rightarrow> string \<Rightarrow> int \<Rightarrow> int \<Rightarrow>
   ((error + Commit list) \<times> logentry list) option" where
  "getMonthlyCommitActivity h api own rep yr mo =
     (case dateRange h yr mo of
        Inl e \<Rightarrow> Some (Inl e, [])
      | Inr (startDate, endDate) \<Rightarrow>
          (case fetchPages (listCommits api own rep startDate endDate) 1 [] [] of
             None \<Rightarrow> None
           | Some (Inl e, requested) \<Rightarrow>
               Some (Inr [], [(LError, ''Error fetching commits: '' @ error_message e)])
           | Some (Inr allCommits, requested) \<Rightarrow>
               (let (processedCommits, logs) = processCommits h api own rep allCommits
                in Some (Inr (sort_js (compareCommits h) processedCommits), logs))))"

subsection \<open>The commits report\<close>

text \<open>The locals of the CSV branch: \<open>escapedMessage\<close>, \<open>truncatedMessage\<close> and
  \<open>truncatedFiles\<close>. The issues report escapes and truncates its \<open>body\<close> the same way.\<close>

definition escaped :: "string \<Rightarrow> string" where
  "escaped s = replaceAll newline '' '' (replaceAll (CHR '','') '';'' s)"

definition truncated :: "string \<Rightarrow> string" where
  "truncated e = (if length e > 1024 then take 1021 e @ ''...'' else e)"

definition truncatedFiles :: "string list \<Rightarrow> string list" where
  "truncatedFiles fs =
     (if length fs > 50
      then take 49 fs @ [''...and '' @ toString (int (length fs) - 49) @ '' more files'']
      else fs)"

definition commitCsvRow :: "string \<Rightarrow> Commit \<Rightarrow> string" where
  "commitCsvRow own commit =
     date commit @ '','' @ own @ '','' @ repo commit @ '','' @ author commit @ '',''
       @ toString (additions commit) @ '','' @ toString (deletions commit) @ '',''
       @ [dquote] @ join '','' (truncatedFiles (files commit)) @ [dquote] @ '',''
       @ truncated (escaped (message commit))"

definition commitSection :: "string \<Rightarrow> string \<Rightarrow> Commit \<Rightarrow> string" where
  "commitSection own rep commit =
     ''### Commit on '' @ date commit @ '' in repository '' @ own @ ''/'' @ rep @ '' by ''
       @ author commit @ [newline]
     @ ''- **Message:** '' @ message commit @ [newline]
     @ ''- **Changes:** +'' @ toString (additions commit) @ '' -''
       @ toString (deletions commit) @ [newline]
     @ (if length (files commit) > 0 then
          ''- **Files Changed:**'' @ [newline]
          @ concat (map (\<lambda>file. ''  - '' @ file @ [newline])
              (if length (files commit) > 10 then take 10 (files commit) else files commit))
          @ (if length (files commit) > 10 then
               ''  - ...and '' @ toString (int (length (files commit)) - 10) @ '' more files''
                 @ [newline]
             else [])
        else [])
     @ ''- **URL:** '' @ url commit @ [newline, newline]"

definition commitsReport :: "format \<Rightarrow> string \<Rightarrow> string \<Rightarrow> string \<Rightarrow> int \<Rightarrow> Commit list \<Rightarrow> string" where
  "commitsReport fmt own rep monthName yr commits =
     ''# GitHub Commits in '' @ rep @ '' owned by '' @ own @ '' for '' @ monthName @ '' ''
       @ toString yr @ [newline, newline]
     @ (if fmt = csv then
          (let csvRows = ''Date,Owner,Repository,Author,Additions,Deletions,Files,Message''
                           # map (commitCsvRow own) commits
           in ''```csv'' @ [newline] @ join [newline] csvRows @ ''```'' @ [newline, newline])
        else
          ''## Summary for '' @ own @ ''/'' @ rep @ '' in '' @ monthName @ '' '' @ toString yr
            @ [newline]
          @ ''Total commits in '' @ own @ ''/'' @ rep @ '' for '' @ monthName @ '' ''
            @ toString yr @ '': '' @ toString (int (length commits)) @ [newline]
          @ (let totalAdditions = foldl (\<lambda>sum commit. sum + additions commit) 0 commits;
                 totalDeletions = foldl (\<lambda>sum commit. sum + deletions commit) 0 commits
             in ''Total lines changed in '' @ own @ ''/'' @ rep @ '' for '' @ monthName @ '' ''
                  @ toString yr @ '': +'' @ toString totalAdditions @ '' -''
                  @ toString totalDeletions @ [newline, newline])
          @ ''## Detailed Commits'' @ [newline, newline]
          @ concat (map (commitSection own rep) commits))"

text \<open>\<open>generateMonthlyReport\<close> of the commits module. \<open>argv\<close> is \<open>process.argv.slice(2)\<close>;
  \<open>Inr None\<close> is the result \<open>null\<close>.\<close>

definition commits_generateMonthlyReport ::
  "host \<Rightarrow> octokit \<Rightarrow> string list \<Rightarrow> string \<Rightarrow> string \<Rightarrow> int \<Rightarrow> int \<Rightarrow>
   ((error + string option) \<times> logentry list) option" where
  "commits_generateMonthlyReport h api argv own rep yr mo =
     (case getMonthlyCommitActivity h api own rep yr mo of
        None \<Rightarrow> None
      | Some (Inl e, logs) \<Rightarrow> Some (Inl e, logs)
      | Some (Inr commits, logs) \<Rightarrow>
          (let monthName = monthLong h (newDate (LocalTZA h) yr (mo - 1) 1) in
           if length commits = 0 then
             Some (Inr None,
                   logs @ [(LDebug, ''No activity found for '' @ monthName @ '' '' @ toString yr)])
           else
             (case parseCommandLineArgs argv of
                Inl e \<Rightarrow> Some (Inl e, logs)
              | Inr args \<Rightarrow>
                  Some (Inr (Some (commitsReport (format args) own rep monthName yr commits)),
                        logs))))"

section \<open>Issues\<close>

text \<open>The fields \<open>updatedAt\<close> and \<open>createdAt\<close> are declared \<open>string\<close>, but
  \<open>formatDateTime\<close> returns \<open>null\<close> for an absent timestamp and the non-null assertion on
  its result does nothing at run time: they are \<open>string option\<close> like \<open>closedAt\<close>.\<close>

record Issue =
  updatedAt :: "string option"
  createdAt :: "string option"
  closedAt :: "string option"
  assignee :: string
  operation :: string
  repo :: string
  title :: string
  number :: int
  state :: string
  author :: string
  body :: string
  labels :: "string list"
  milestone :: string
  state_reason :: string

definition formatDateTime :: "host \<Rightarrow> Date option \<Rightarrow> string option" where
  "formatDateTime h d = (case d of None \<Rightarrow> None | Some t \<Rightarrow> Some (displayDate h t))"

text \<open>\<open>new Date(x || '')\<close>, \<open>x || ''\<close> and \<open>x || null\<close> on an optional string.\<close>

definition dateOrInvalid :: "Date option \<Rightarrow> Date" where
  "dateOrInvalid d = (case d of None \<Rightarrow> InvalidDate | Some t \<Rightarrow> t)"

definition orEmpty :: "string option \<Rightarrow> string" where
  "orEmpty s = (case s of None \<Rightarrow> [] | Some x \<Rightarrow> x)"

definition orNull :: "string option \<Rightarrow> string option" where
  "orNull s = (case s of None \<Rightarrow> None | Some x \<Rightarrow> if x = [] then None else Some x)"

definition inDateRange :: "isostring \<Rightarrow> isostring \<Rightarrow> ApiIssue \<Rightarrow> bool" where
  "inDateRange startDate endDate issue =
     (let updatedAt = dateOrInvalid (api_updated_at issue)
      in date_ge updatedAt (newDateISO startDate) \<and> date_le updatedAt (newDateISO endDate))"

definition compareIssues :: "ApiIssue \<Rightarrow> ApiIssue \<Rightarrow> number" where
  "compareIssues a b =
     (let dateA = dateOrInvalid (api_updated_at a); dateB = dateOrInvalid (api_updated_at b)
      in num_sub (getTime dateA) (getTime dateB))"

definition toIssue :: "host \<Rightarrow> string \<Rightarrow> ApiIssue \<Rightarrow> Issue" where
  "toIssue h rep issue =
     (let updatedAt = dateOrInvalid (api_updated_at issue);
          createdAt = dateOrInvalid (api_created_at issue);
          closedAt = api_closed_at issue;
          operation = determineOperation (LocalTZA h) updatedAt createdAt closedAt
                        (orNull (api_state_reason issue))
      in \<lparr>updatedAt = formatDateTime h (api_updated_at issue),
          createdAt = formatDateTime h (api_created_at issue),
          closedAt = formatDateTime h (api_closed_at issue),
          assignee = (if orEmpty (api_assignee_login issue) = [] then ''unassigned''
                      else orEmpty (api_assignee_login issue)),
          operation = operation,
          repo = rep,
          title = api_title issue,
          number = api_number issue,
          state = api_state issue,
          author = orEmpty (api_user_login issue),
          body = orEmpty (api_body issue),
          labels = api_labels issue,
          milestone = orEmpty (api_milestone_title issue),
          state_reason = orEmpty (api_state_reason issue)\<rparr>)"

definition getMonthlyIssueActivity ::
  "host \<Rightarrow> octokit \<Rightarrow> string \<Rightarrow> string \<Rightarrow> int \<Rightarrow> int \<Rightarrow> (error + Issue list) \<times> logentry list" where
  "getMonthlyIssueActivity h api own rep yr mo =
     (case dateRange h yr mo of
        Inl e \<Rightarrow> (Inl e, [])
      | Inr (startDate, endDate) \<Rightarrow>
          (case listForRepo api own rep startDate endDate of
             Inl e \<Rightarrow> (Inr [], [(LError, ''Error fetching commits:'')])
           | Inr data \<Rightarrow>
               (Inr (map (toIssue h rep)
                      (sort_js compareIssues (filter (inDateRange startDate endDate) data))),
                [])))"

subsection \<open>The issues report\<close>

text \<open>A \<open>string | null\<close> inside a template literal prints \<open>null\<close> as the word.\<close>

definition templ :: "string option \<Rightarrow> string" where
  "templ s = (case s of None \<Rightarrow> ''null'' | Some x \<Rightarrow> x)"

definition issueCsvRow :: "string \<Rightarrow> Issue \<Rightarrow> string" where
  "issueCsvRow own issue =
     templ (updatedAt issue) @ '','' @ templ (createdAt issue) @ '',''
       @ orEmpty (closedAt issue) @ '','' @ assignee issue @ '','' @ own @ '',''
       @ Issue.repo issue @ '','' @ Issue.author issue @ '','' @ title issue @ '',''
       @ state issue @ '','' @ [dquote] @ join '','' (labels issue) @ [dquote] @ '',''
       @ milestone issue @ '','' @ truncated (escaped (body issue))"

definition issueSection :: "string \<Rightarrow> string \<Rightarrow> Issue \<Rightarrow> string" where
  "issueSection own rep issue =
     ''### Issue #'' @ toString (number issue) @ '' was '' @ operation issue @ '' on ''
       @ templ (updatedAt issue) @ '' in repository '' @ own @ ''/'' @ rep
       @ '' with title '' @ [dquote] @ title issue @ [dquote] @ [newline]
     @ (if createdAt issue \<noteq> updatedAt issue
        then ''- **Created on:** '' @ templ (createdAt issue) @ [newline] else [])
     @ (if orEmpty (closedAt issue) \<noteq> []
        then ''- **Closed on:** '' @ templ (closedAt issue) @ [newline] else [])
     @ ''- **Author:** '' @ Issue.author issue @ [newline]
     @ ''- **Assignee:** '' @ assignee issue @ [newline]
     @ ''- **State:** '' @ state issue @ [newline]
     @ (if length (labels issue) > 0
        then ''- **Labels:** '' @ join '', '' (labels issue) @ [newline] else [])
     @ (if milestone issue \<noteq> []
        then ''- **Milestone:** '' @ milestone issue @ [newline] else [])
     @ (if body issue \<noteq> [] then
          (let truncatedBody = (if length (body issue) > 500
                                then take 497 (body issue) @ ''...'' else body issue)
           in ''- **Description:**'' @ [newline] @ ''  ''
                @ replaceAll newline (newline # ''  '') truncatedBody @ [newline])
        else [])
     @ [newline]"

definition issuesReport :: "format \<Rightarrow> string \<Rightarrow> string \<Rightarrow> string \<Rightarrow> int \<Rightarrow> Issue list \<Rightarrow> string" where
  "issuesReport fmt own rep monthName yr issues =
     ''# GitHub Issues in '' @ rep @ '' owned by '' @ own @ '' for '' @ monthName @ '' ''
       @ toString yr @ [newline, newline]
     @ (if fmt = csv then
          (let csvRows = ''UpdateAt, CreatedAt, ClosedAt, Assignee, Owner, Repository, Author, Title, State, Labels, Milestone, Body''
                           # map (issueCsvRow own) issues
           in ''```csv'' @ [newline] @ join [newline] csvRows @ ''```'' @ [newline, newline])
        else
          ''## Summary for '' @ own @ ''/'' @ rep @ '' in '' @ monthName @ '' '' @ toString yr
            @ [newline]
          @ ''Total issues in '' @ own @ ''/'' @ rep @ '' for '' @ monthName @ '' ''
            @ toString yr @ '': '' @ toString (int (length issues)) @ [newline, newline]
          @ (let openIssues = filter (\<lambda>issue. state issue = ''open'') issues;
                 closedIssues = filter (\<lambda>issue. state issue = ''closed'') issues
             in ''- Open issues: '' @ toString (int (length openIssues)) @ [newline]
                @ ''- Closed issues: '' @ toString (int (length closedIssues))
                @ [newline, newline])
          @ ''## Detailed Issues'' @ [newline, newline]
          @ concat (map (issueSection own rep) issues))"

definition issues_generateMonthlyReport ::
  "host \<Rightarrow> octokit \<Rightarrow> string list \<Rightarrow> string \<Rightarrow> string \<Rightarrow> int \<Rightarrow> int \<Rightarrow>
   (error + string option) \<times> logentry list" where
  "issues_generateMonthlyReport h api argv own rep yr mo =
     (case getMonthlyIssueActivity h api own rep yr mo of
        (Inl e, logs) \<Rightarrow> (Inl e, logs)
      | (Inr issues, logs) \<Rightarrow>
          (let monthName = monthLong h (newDate (LocalTZA h) yr (mo - 1) 1) in
           if length issues = 0 then
             (Inr None,
              logs @ [(LDebug, ''No activity found for '' @ monthName @ '' '' @ toString yr)])
           else
             (case parseCommandLineArgs argv of
                Inl e \<Rightarrow> (Inl e, logs)
              | Inr args \<Rightarrow>
                  (Inr (Some (issuesReport (format args) own rep monthName yr issues)),
                   logs))))"

section \<open>The repository driver\<close>

datatype activityType = Commits | Issues

definition activityName :: "activityType \<Rightarrow> string" where
  "activityName t = (case t of Commits \<Rightarrow> ''commits'' | Issues \<Rightarrow> ''issues'')"

text \<open>
  The activity configuration: \<open>github[activityType][owner]\<close> is the owner's entry, if any.
  The file system is a map from paths to contents. What the driver takes from modules that
  are not part of the sources (\<open>config.js\<close>, \<open>fs\<close>) is a parameter: the activity directory,
  the result of \<open>loadActivityConfig\<close>, the predicate \<open>shouldGenerateActivity\<close>, and
  for \<open>mkdir\<close> and \<open>writeFile\<close> the error they throw on a path, if any.
\<close>

record ActivityConfig =
  github :: "activityType \<Rightarrow> string \<Rightarrow> string option"

type_synonym fs = "string \<Rightarrow> string option"

record system =
  activityDirectory :: string
  loadActivityConfig :: "error + ActivityConfig"
  shouldGenerateActivity ::
    "ActivityConfig \<Rightarrow> string \<Rightarrow> string \<Rightarrow> int \<Rightarrow> int \<Rightarrow> activityType \<Rightarrow> bool"
  mkdir :: "string \<Rightarrow> error option"
  writeFile :: "string \<Rightarrow> error option"

definition existsSync :: "fs \<Rightarrow> string \<Rightarrow> bool" where
  "existsSync fls path = (fls path \<noteq> None)"

text \<open>\<open>path.join\<close> and \<open>path.dirname\<close>, for segments without dots and a path with a
  directory part.\<close>

definition dirname :: "string \<Rightarrow> string" where
  "dirname path = rev (drop 1 (dropWhile (\<lambda>c. c \<noteq> CHR ''/'') (rev path)))"

text \<open>The client is the one that \<open>initializeGithubClient\<close> has set up with the owner's
  token; looking the token up (\<open>getGithubToken\<close>, in \<open>config.js\<close>) is taken to succeed.\<close>

definition initializeGithubClient ::
  "system \<Rightarrow> octokit \<Rightarrow> string \<Rightarrow> activityType \<Rightarrow> error + string" where
  "initializeGithubClient sys api own activityType =
     (case loadActivityConfig sys of
        Inl e \<Rightarrow> Inl e
      | Inr activityConfig \<Rightarrow>
          (case github activityConfig activityType (if own = ''self'' then ''tobrien'' else own) of
             None \<Rightarrow> Inl (Error (''Owner '' @ own @ '' not found in activity configuration''))
           | Some ownerConfig \<Rightarrow> getAuthenticated api))"

definition outputPathOf ::
  "system \<Rightarrow> int \<Rightarrow> int \<Rightarrow> string \<Rightarrow> string \<Rightarrow> activityType \<Rightarrow> string" where
  "outputPathOf sys yr mo authenticatedOwner name activityType =
     join ''/'' [activityDirectory sys, ''development'', toString yr, toString mo,
       authenticatedOwner @ ''-'' @ name @ ''-github-'' @ activityName activityType @ ''.md'']"

type_synonym generator =
  "string \<Rightarrow> string \<Rightarrow> int \<Rightarrow> int \<Rightarrow> ((error + string option) \<times> logentry list) option"

text \<open>
  The body of the loop of \<open>processRepositories\<close> for the repository \<open>name\<close>: the new file
  system, or the error thrown, with the lines logged. \<open>None\<close> is a report generator that
  does not return.
\<close>

definition processRepository ::
  "system \<Rightarrow> ActivityConfig \<Rightarrow> CommandLineArgs \<Rightarrow> activityType \<Rightarrow> generator \<Rightarrow> string \<Rightarrow>
   string \<Rightarrow> fs \<Rightarrow> ((error + fs) \<times> logentry list) option" where
  "processRepository sys activityConfig args activityType generateReport authenticatedOwner
     name fls =
     (let outputPath =
            outputPathOf sys (year args) (month args) authenticatedOwner name activityType;
          slug = authenticatedOwner @ ''/'' @ name
      in
      if existsSync fls outputPath \<and> \<not> shouldReplace args then
        Some (Inr fls,
              [(LWarn, ''Skipping existing file '' @ outputPath @ ''. Use --replace to overwrite.'')])
      else
        (let logs0 =
               (if existsSync fls outputPath
                then [(LInfo, ''Replacing existing file '' @ outputPath
                         @ '' as requested by --replace flag'')]
                else [])
         in
         if orEmpty (omitRepo args) \<noteq> [] \<and> Some name = omitRepo args then
           Some (Inr fls,
                 logs0 @ [(LDebug, ''Skipping repository '' @ slug
                             @ '' as requested by --omit flag'')])
         else if \<not> shouldGenerateActivity sys activityConfig authenticatedOwner name
                     (year args) (month args) activityType then
           Some (Inr fls,
                 logs0 @ [(LDebug, ''Skipping repository '' @ slug
                             @ '' based on activity configuration'')])
         else
           (let logs1 =
                  logs0 @ [(LInfo, ''Generating monthly report for '' @ slug @ '' in ''
                              @ toString (year args) @ ''-'' @ toString (month args))]
            in
            case generateReport authenticatedOwner name (year args) (month args) of
              None \<Rightarrow> None
            | Some (Inl e, logs) \<Rightarrow> Some (Inl e, logs1 @ logs)
            | Some (Inr report, logs) \<Rightarrow>
                if orEmpty report \<noteq> [] then
                  (case mkdir sys (dirname outputPath) of
                     Some e \<Rightarrow> Some (Inl e, logs1 @ logs)
                   | None \<Rightarrow>
                       (let logs2 = logs1 @ logs @ [(LInfo, ''Writing report to '' @ outputPath)]
                        in case writeFile sys outputPath of
                             Some e \<Rightarrow> Some (Inl e, logs2)
                           | None \<Rightarrow> Some (Inr (fls(outputPath \<mapsto> orEmpty report)), logs2)))
                else Some (Inr fls, logs1 @ logs))))"

text \<open>The loop over the repositories: the error that ended it (if any), the file system
  and the log.\<close>

fun processLoop ::
  "system \<Rightarrow> ActivityConfig \<Rightarrow> CommandLineArgs \<Rightarrow> activityType \<Rightarrow> generator \<Rightarrow> string \<Rightarrow>
   string list \<Rightarrow> fs \<Rightarrow> (error option \<times> fs \<times> logentry list) option" where
  "processLoop sys activityConfig args activityType generateReport authenticatedOwner [] fls =
     Some (None, fls, [])"
| "processLoop sys activityConfig args activityType generateReport authenticatedOwner
     (name # rest) fls =
     (case processRepository sys activityConfig args activityType generateReport
             authenticatedOwner name fls of
        None \<Rightarrow> None
      | Some (Inl e, logs) \<Rightarrow> Some (Some e, fls, logs)
      | Some (Inr fls1, logs) \<Rightarrow>
          (case processLoop sys activityConfig args activityType generateReport
                  authenticatedOwner rest fls1 of
             None \<Rightarrow> None
           | Some (r, fls2, logs') \<Rightarrow> Some (r, fls2, logs @ logs')))"

definition processRepositories ::
  "system \<Rightarrow> octokit \<Rightarrow> CommandLineArgs \<Rightarrow> activityType \<Rightarrow> generator \<Rightarrow> fs \<Rightarrow>
   (error option \<times> fs \<times> logentry list) option" where
  "processRepositories sys api args activityType generateReport fls =
     (case initializeGithubClient sys api (owner args) activityType of
        Inl e \<Rightarrow> Some (Some e, fls, [])
      | Inr authenticatedOwner \<Rightarrow>
          (case loadActivityConfig sys of
             Inl e \<Rightarrow> Some (Some e, fls, [])
           | Inr activityConfig \<Rightarrow>
               (case listForAuthenticatedUser api of
                  Inl e \<Rightarrow> Some (Some e, fls, [])
                | Inr repos \<Rightarrow>
                    processLoop sys activityConfig args activityType generateReport
                      authenticatedOwner repos fls)))"

text \<open>The entry points: the exit code is 1 when an error reaches \<open>main\<close>, which logs it.\<close>

definition main ::
  "system \<Rightarrow> octokit \<Rightarrow> activityType \<Rightarrow> (string list \<Rightarrow> generator) \<Rightarrow> string list \<Rightarrow> fs \<Rightarrow>
   (nat option \<times> fs \<times> logentry list) option" where
  "main sys api activityType generateMonthlyReport argv fls =
     (case parseCommandLineArgs argv of
        Inl e \<Rightarrow> Some (Some 1, fls, [(LError, error_message e)])
      | Inr args \<Rightarrow>
          (case processRepositories sys api args activityType (generateMonthlyReport argv) fls of
             None \<Rightarrow> None
           | Some (None, fls1, logs) \<Rightarrow> Some (None, fls1, logs)
           | Some (Some e, fls1, logs) \<Rightarrow>
               Some (Some 1, fls1, logs @ [(LError, error_message e)])))"

definition commits_main ::
  "host \<Rightarrow> system \<Rightarrow> octokit \<Rightarrow> string list \<Rightarrow> fs \<Rightarrow> (nat option \<times> fs \<times> logentry list) option" where
  "commits_main h sys api argv fls =
     main sys api Commits (commits_generateMonthlyReport h api) argv fls"

definition issues_main ::
  "host \<Rightarrow> system \<Rightarrow> octokit \<Rightarrow> string list \<Rightarrow> fs \<Rightarrow> (nat option \<times> fs \<times> logentry list) option" where
  "issues_main h sys api argv fls =
     main sys api Issues
       (\<lambda>args own rep yr mo. Some (issues_generateMonthlyReport h api args own rep yr mo))
       argv fls"

section \<open>A host for the examples\<close>

text \<open>
  One host, to run the definitions on concrete inputs: the time zone is UTC, dates are
  formatted as \<open>MM/DD/YYYY\<close> and times as \<open>h:mm AM\<close>, and \<open>new Date(string)\<close> reads that
  layout back as local time.
\<close>

definition pad2 :: "int \<Rightarrow> string" where
  "pad2 n = (if n < 10 then ''0'' @ toString n else toString n)"

definition HourFromTime :: "int \<Rightarrow> int" where
  "HourFromTime t = (t div 3600000) mod 24"

definition MinFromTime :: "int \<Rightarrow> int" where
  "MinFromTime t = (t div 60000) mod 60"

definition usDateString :: "tza \<Rightarrow> Date \<Rightarrow> string" where
  "usDateString tz d =
     (case d of
        InvalidDate \<Rightarrow> ''Invalid Date''
      | TimeValue t \<Rightarrow>
          (let lt = LocalTime tz t
           in pad2 (MonthFromTime lt + 1) @ ''/'' @ pad2 (DateFromTime lt) @ ''/''
                @ toString (YearFromTime lt)))"

definition usTimeString :: "tza \<Rightarrow> Date \<Rightarrow> string" where
  "usTimeString tz d =
     (case d of
        InvalidDate \<Rightarrow> ''Invalid Date''
      | TimeValue t \<Rightarrow>
          (let lt = LocalTime tz t; hr = HourFromTime lt
           in toString (if hr mod 12 = 0 then 12 else hr mod 12) @ '':''
                @ pad2 (MinFromTime lt) @ '' '' @ (if hr < 12 then ''AM'' else ''PM'')))"

fun splitOn :: "(char \<Rightarrow> bool) \<Rightarrow> string \<Rightarrow> string list" where
  "splitOn p [] = [[]]"
| "splitOn p (c # cs) =
     (if p c then [] # splitOn p cs
      else (case splitOn p cs of [] \<Rightarrow> [[c]] | t # ts \<Rightarrow> (c # t) # ts))"

definition parseDisplay :: "tza \<Rightarrow> string \<Rightarrow> Date" where
  "parseDisplay tz s =
     (case map parseInt (take 5 (splitOn (\<lambda>c. c \<in> set ''/ :'') s)) of
        [Some mo, Some d, Some y, Some hr, Some mi] \<Rightarrow>
          (let pm = (drop 5 (splitOn (\<lambda>c. c \<in> set ''/ :'') s) = [''PM''])
           in TimeClip (UTC tz (MakeDay y (mo - 1) d * msPerDay
                + ((hr mod 12 + (if pm then 12 else 0)) * 60 + mi) * 60000)))
      | _ \<Rightarrow> InvalidDate)"

definition monthNameOf :: "tza \<Rightarrow> Date \<Rightarrow> string" where
  "monthNameOf tz d =
     (case d of
        InvalidDate \<Rightarrow> ''Invalid Date''
      | TimeValue t \<Rightarrow>
          [''January'', ''February'', ''March'', ''April'', ''May'', ''June'', ''July'',
           ''August'', ''September'', ''October'', ''November'', ''December'']
            ! nat (MonthFromTime (LocalTime tz t)))"

definition utc :: tza where
  "utc = (\<lambda>t isUTC. 0)"

definition utcHost :: host where
  "utcHost =
     \<lparr>LocalTZA = utc, toLocaleDateString = usDateString utc,
      toLocaleTimeString = usTimeString utc, Date_parse = parseDisplay utc,
      monthLong = monthNameOf utc\<rparr>"

section \<open>The classifier as the specification words it\<close>

definition baseLabel :: "string option \<Rightarrow> string" where
  "baseLabel rsn =
     (if rsn = Some ''reopened'' then ''Reopened''
      else if rsn = Some ''completed'' then ''Completed''
      else if rsn = Some ''not_planned'' then ''Ignored''
      else ''Closed'')"

text \<open>Two dates fall in the same calendar month: both are valid and their local years
  and months agree.\<close>

definition sameCalendarMonth :: "tza \<Rightarrow> Date \<Rightarrow> Date \<Rightarrow> bool" where
  "sameCalendarMonth tz a b =
     (case (a, b) of
        (TimeValue s, TimeValue t) \<Rightarrow>
          YearFromTime (LocalTime tz s) = YearFromTime (LocalTime tz t) \<and>
          MonthFromTime (LocalTime tz s) = MonthFromTime (LocalTime tz t)
      | _ \<Rightarrow> False)"

text \<open>The gap from creation to update, against one day of 86400000 milliseconds.\<close>

definition gapAtLeastOneDay :: "Date \<Rightarrow> Date \<Rightarrow> bool" where
  "gapAtLeastOneDay crt upd =
     (case (crt, upd) of (TimeValue c, TimeValue u) \<Rightarrow> u - c \<ge> msPerDay | _ \<Rightarrow> False)"

definition gapUnderOneDay :: "Date \<Rightarrow> Date \<Rightarrow> bool" where
  "gapUnderOneDay crt upd =
     (case (crt, upd) of (TimeValue c, TimeValue u) \<Rightarrow> u - c < msPerDay | _ \<Rightarrow> False)"

section \<open>Inputs for the examples\<close>

text \<open>A commit whose message has 1025 characters, with a comma and a newline among them,
  and which changes 51 files; and a client whose commit list holds this one commit.\<close>

definition longDetail :: CommitDetail where
  "longDetail =
     \<lparr>html_url = ''https://github.com/acme/widgets/commit/long'',
      author_date = Some (TimeValue 1710522420000), author_name = Some ''dev'',
      commit_message = ''a,b'' @ [newline] @ replicate 1021 (CHR ''x''),
      stats_additions = Some 1, stats_deletions = None,
      detail_files = Some (map (\<lambda>i. ''f'' @ natToString i) [0 ..< 51])\<rparr>"

definition longApi :: octokit where
  "longApi =
     \<lparr>listCommits = (\<lambda>own rep since until page. Inr [\<lparr>sha = ''long''\<rparr>]),
      getCommit = (\<lambda>own rep ref. Inr longDetail),
      listForRepo = (\<lambda>own rep since until. Inr []),
      getAuthenticated = Inr ''acme'',
      listForAuthenticatedUser = Inr [''widgets'']\<rparr>"

text \<open>Page 1 holds 100 commits, page 2 holds one.\<close>

definition twoPages :: "nat \<Rightarrow> CommitStub list" where
  "twoPages p = (if p = 1 then replicate 100 \<lparr>sha = ''a''\<rparr> else [\<lparr>sha = ''b''\<rparr>])"

text \<open>
  The owner \<open>acme\<close> with the repositories \<open>widgets\<close> and \<open>gadgets\<close>, in March 2024.
  The commit list holds two commits, the newer one first. The issue list holds issues
  updated on 10 March, on 31 March at 00:00 and on 1 March at 00:00.
\<close>

definition commitDetail1 :: CommitDetail where
  "commitDetail1 =
     \<lparr>html_url = ''https://github.com/acme/widgets/commit/c1'',
      author_date = Some (TimeValue 1709629620000), author_name = Some ''Ann'',
      commit_message = ''Add widget'', stats_additions = Some 10, stats_deletions = Some 2,
      detail_files = Some [''src/widget.ts'']\<rparr>"

definition commitDetail2 :: CommitDetail where
  "commitDetail2 =
     \<lparr>html_url = ''https://github.com/acme/widgets/commit/c2'',
      author_date = Some (TimeValue 1710955800000), author_name = Some ''Bob'',
      commit_message = ''Fix widget, again'', stats_additions = Some 3,
      stats_deletions = Some 4, detail_files = Some [''src/widget.ts'', ''README.md'']\<rparr>"

definition issueOn :: "int \<Rightarrow> int \<Rightarrow> string \<Rightarrow> ApiIssue" where
  "issueOn n t ttl =
     \<lparr>api_updated_at = Some (TimeValue t), api_created_at = Some (TimeValue 1709251200000),
      api_closed_at = None, api_state_reason = None, api_assignee_login = None,
      api_title = ttl, api_number = n, api_state = ''open'', api_user_login = Some ''ann'',
      api_body = Some ''Steps, then more'', api_labels = [''bug''],
      api_milestone_title = None\<rparr>"

definition sampleApi :: octokit where
  "sampleApi =
     \<lparr>listCommits = (\<lambda>own rep since until page.
        if page = 1 then Inr [\<lparr>sha = ''c2''\<rparr>, \<lparr>sha = ''c1''\<rparr>] else Inr []),
      getCommit = (\<lambda>own rep ref.
        if ref = ''c1'' then Inr commitDetail1
        else if ref = ''c2'' then Inr commitDetail2
        else Inl (Error ''Not Found'')),
      listForRepo = (\<lambda>own rep since until.
        Inr [issueOn 2 1710028800000 ''Second'', issueOn 3 1711843200000 ''Third'',
             issueOn 1 1709251200000 ''First'']),
      getAuthenticated = Inr ''acme'',
      listForAuthenticatedUser = Inr [''widgets'', ''gadgets'']\<rparr>"

text \<open>An issue list with one issue, updated on 31 March 2024 at 12:00 UTC.\<close>

definition lastDayApi :: octokit where
  "lastDayApi =
     sampleApi\<lparr>listForRepo := (\<lambda>own rep since until. Inr [issueOn 7 1711886400000 ''Late''])\<rparr>"

text \<open>An issue list with one issue whose title holds a comma.\<close>

definition commaApi :: octokit where
  "commaApi =
     sampleApi\<lparr>listForRepo := (\<lambda>own rep since until. Inr [issueOn 5 1710028800000 ''Fix a, b''])\<rparr>"

text \<open>A client whose list calls throw.\<close>

definition failingApi :: octokit where
  "failingApi =
     sampleApi\<lparr>listCommits := (\<lambda>own rep since until page. Inl (Error ''Bad gateway'')),
               listForRepo := (\<lambda>own rep since until. Inl (Error ''Bad gateway''))\<rparr>"

definition sampleArgv :: "string list" where
  "sampleArgv = [''acme'', ''2024'', ''3'', ''--format'', ''csv'']"

definition sampleArgs :: CommandLineArgs where
  "sampleArgs =
     \<lparr>owner = ''acme'', year = 2024, month = 3, omitRepo = None, shouldReplace = False,
      format = csv\<rparr>"

definition sampleConfig :: ActivityConfig where
  "sampleConfig = \<lparr>github = (\<lambda>t own. if own = ''acme'' then Some ''ACME_TOKEN'' else None)\<rparr>"

definition sampleSystem :: system where
  "sampleSystem =
     \<lparr>activityDirectory = ''activity'', loadActivityConfig = Inr sampleConfig,
      shouldGenerateActivity = (\<lambda>cfg own rep yr mo t. True),
      mkdir = (\<lambda>path. None), writeFile = (\<lambda>path. None)\<rparr>"

text \<open>The same system, where writing the report of \<open>widgets\<close> fails.\<close>

definition widgetsPath :: string where
  "widgetsPath = ''activity/development/2024/3/acme-widgets-github-commits.md''"

definition gadgetsPath :: string where
  "gadgetsPath = ''activity/development/2024/3/acme-gadgets-github-commits.md''"

definition readOnlySystem :: system where
  "readOnlySystem =
     sampleSystem\<lparr>writeFile := (\<lambda>path.
        if path = widgetsPath then Some (Error ''EACCES: permission denied'') else None)\<rparr>"

definition noFiles :: fs where
  "noFiles = (\<lambda>path. None)"

text \<open>A client whose lists are empty: a month with no activity.\<close>

definition emptyApi :: octokit where
  "emptyApi =
     sampleApi\<lparr>listCommits := (\<lambda>own rep since until page. Inr []),
               listForRepo := (\<lambda>own rep since until. Inr [])\<rparr>"



section \<open>The issue operation classifier\<close>

lemma inSameMonth_iff: "inSameMonth tz a b = sameCalendarMonth tz a b"
  by (cases a; cases b)
     (simp_all add: inSameMonth_def sameCalendarMonth_def getFullYear_def getMonth_def num_eq_def)

lemma daysBetween_ge1:
  "num_le (Some 1) (num_div (num_sub (Some (real_of_int u)) (Some (real_of_int c))) 86400000)
   = (u - c \<ge> msPerDay)"
proof -
  have "(86400000 \<le> real_of_int u - real_of_int c) = (86400000 \<le> u - c)"
    by linarith
  then show ?thesis
    by (simp add: num_le_def num_div_def num_sub_def msPerDay_def)
qed

lemma determineOperation_closed:
  "determineOperation tz upd crt (Some c) rsn =
     (if sameCalendarMonth tz crt c then ''Created and '' @ baseLabel rsn else baseLabel rsn)"
  by (simp add: determineOperation_def inSameMonth_iff baseLabel_def Let_def)

lemma determineOperation_open:
  "determineOperation tz upd crt None rsn =
     (if sameCalendarMonth tz crt upd then
        (if crt = upd \<or> gapUnderOneDay crt upd then ''Created'' else ''Updated a New Issue'')
      else ''Updated'')"
proof (cases "sameCalendarMonth tz crt upd")
  case False
  then show ?thesis
    by (simp add: determineOperation_def inSameMonth_iff Let_def)
next
  case True
  then obtain c u where cu: "crt = TimeValue c" "upd = TimeValue u"
    by (cases crt; cases upd) (simp_all add: sameCalendarMonth_def)
  have eq: "num_eq (Some (real_of_int c)) (Some (real_of_int u)) = (c = u)"
    by (simp add: num_eq_def)
  have "determineOperation tz upd crt None rsn =
          (if c = u then ''Created''
           else if u - c \<ge> msPerDay then ''Updated a New Issue'' else ''Created'')"
    using True
    by (simp add: determineOperation_def inSameMonth_iff Let_def cu getTime_def eq
        daysBetween_ge1)
  also have "\<dots> = (if crt = upd \<or> gapUnderOneDay crt upd then ''Created''
                    else ''Updated a New Issue'')"
    by (simp add: cu gapUnderOneDay_def not_less)
  finally show ?thesis
    using True by simp
qed

text \<open>
  C1. When \<open>closedAt\<close> is non-null the label is the base label of the state reason, with the
  prefix \<open>Created and\<close> exactly when creation and closing fall in the same calendar month.
  When \<open>closedAt\<close> is null and creation and update fall in the same calendar month, the
  label is \<open>Created\<close> if the two are equal or less than one day apart and
  \<open>Updated a New Issue\<close> if they are at least one day apart. In every other case it is
  \<open>Updated\<close>.
\<close>

theorem determineOperation_classifies:
  "(cls = Some c \<longrightarrow>
      determineOperation tz upd crt cls rsn =
        (if sameCalendarMonth tz crt c then ''Created and '' @ baseLabel rsn
         else baseLabel rsn)) \<and>
   (cls = None \<and> sameCalendarMonth tz crt upd \<and> (crt = upd \<or> gapUnderOneDay crt upd) \<longrightarrow>
      determineOperation tz upd crt cls rsn = ''Created'') \<and>
   (cls = None \<and> sameCalendarMonth tz crt upd \<and> gapAtLeastOneDay crt upd \<longrightarrow>
      determineOperation tz upd crt cls rsn = ''Updated a New Issue'') \<and>
   (cls = None \<and> \<not> sameCalendarMonth tz crt upd \<longrightarrow>
      determineOperation tz upd crt cls rsn = ''Updated'')"
proof -
  have "gapAtLeastOneDay crt upd \<Longrightarrow> \<not> (crt = upd \<or> gapUnderOneDay crt upd)"
    by (auto simp: gapAtLeastOneDay_def gapUnderOneDay_def msPerDay_def split: Date.splits)
  then show ?thesis
    by (auto simp: determineOperation_closed determineOperation_open)
qed

text \<open>Closed in the month of creation with reason \<open>completed\<close>; closed in a later month
  with no reason; created and updated at the same instant; updated 2 hours, then 3 days
  after creation in the same month; updated in the month after creation.\<close>

theorem determineOperation_classifies_witness:
  "determineOperation utc (TimeValue 1710500000000) (TimeValue 1709300000000)
     (Some (TimeValue 1710500000000)) (Some ''completed'') = ''Created and Completed'' \<and>
   determineOperation utc (TimeValue 1712500000000) (TimeValue 1709300000000)
     (Some (TimeValue 1712500000000)) None = ''Closed'' \<and>
   determineOperation utc (TimeValue 1709300000000) (TimeValue 1709300000000) None None
     = ''Created'' \<and>
   determineOperation utc (TimeValue 1709307200000) (TimeValue 1709300000000) None None
     = ''Created'' \<and>
   determineOperation utc (TimeValue 1709559200000) (TimeValue 1709300000000) None None
     = ''Updated a New Issue'' \<and>
   determineOperation utc (TimeValue 1712500000000) (TimeValue 1709300000000) None None
     = ''Updated''"
proof -
  note inst = determineOperation_classifies [where tz = utc and crt = "TimeValue 1709300000000"]
  have a: "sameCalendarMonth utc (TimeValue 1709300000000) (TimeValue 1710500000000)"
    by code_simp
  have b: "\<not> sameCalendarMonth utc (TimeValue 1709300000000) (TimeValue 1712500000000)"
    by code_simp
  have c: "sameCalendarMonth utc (TimeValue 1709300000000) (TimeValue 1709300000000)"
    by code_simp
  have d: "sameCalendarMonth utc (TimeValue 1709300000000) (TimeValue 1709307200000)"
    "gapUnderOneDay (TimeValue 1709300000000) (TimeValue 1709307200000)"
    by code_simp+
  have e: "sameCalendarMonth utc (TimeValue 1709300000000) (TimeValue 1709559200000)"
    "gapAtLeastOneDay (TimeValue 1709300000000) (TimeValue 1709559200000)"
    by code_simp+
  have 1: "determineOperation utc (TimeValue 1710500000000) (TimeValue 1709300000000)
     (Some (TimeValue 1710500000000)) (Some ''completed'') = ''Created and Completed''"
    using inst [where cls = "Some (TimeValue 1710500000000)" and c = "TimeValue 1710500000000"
        and upd = "TimeValue 1710500000000" and rsn = "Some ''completed''"] a
    by (simp add: baseLabel_def)
  have 2: "determineOperation utc (TimeValue 1712500000000) (TimeValue 1709300000000)
     (Some (TimeValue 1712500000000)) None = ''Closed''"
    using inst [where cls = "Some (TimeValue 1712500000000)" and c = "TimeValue 1712500000000"
        and upd = "TimeValue 1712500000000" and rsn = None] b
    by (simp add: baseLabel_def)
  have 3: "determineOperation utc (TimeValue 1709300000000) (TimeValue 1709300000000) None None
     = ''Created''"
    using inst [where cls = None and upd = "TimeValue 1709300000000" and rsn = None] c
    by blast
  have 4: "determineOperation utc (TimeValue 1709307200000) (TimeValue 1709300000000) None None
     = ''Created''"
    using inst [where cls = None and upd = "TimeValue 1709307200000" and rsn = None] d
    by blast
  have 5: "determineOperation utc (TimeValue 1709559200000) (TimeValue 1709300000000) None None
     = ''Updated a New Issue''"
    using inst [where cls = None and upd = "TimeValue 1709559200000" and rsn = None] e
    by blast
  have 6: "determineOperation utc (TimeValue 1712500000000) (TimeValue 1709300000000) None None
     = ''Updated''"
    using inst [where cls = None and upd = "TimeValue 1712500000000" and rsn = None] b
    by blast
  from 1 2 3 4 5 6 show ?thesis
    by blast
qed

text \<open>
  C9. With \<open>closedAt\<close> null the label does not depend on the state reason and is one of
  \<open>Created\<close>, \<open>Updated a New Issue\<close> and \<open>Updated\<close>; a label \<open>Closed\<close>, \<open>Reopened\<close>,
  \<open>Completed\<close>, \<open>Ignored\<close> or one that starts with \<open>Created and\<close> is returned only when
  \<open>closedAt\<close> is non-null.
\<close>

theorem determineOperation_open_issue:
  "determineOperation tz upd crt None rsn1 = determineOperation tz upd crt None rsn2 \<and>
   determineOperation tz upd crt None rsn \<in> {''Created'', ''Updated a New Issue'', ''Updated''} \<and>
   (determineOperation tz upd crt cls rsn \<in> {''Closed'', ''Reopened'', ''Completed'', ''Ignored''} \<or>
    take 12 (determineOperation tz upd crt cls rsn) = ''Created and ''
      \<longrightarrow> cls \<noteq> None)"
  by (cases cls) (simp_all add: determineOperation_open)

theorem determineOperation_open_issue_witness:
  "take 12 (determineOperation utc (TimeValue 1710500000000) (TimeValue 1709300000000)
     (Some (TimeValue 1710500000000)) (Some ''completed'')) = ''Created and '' \<and>
   Some (TimeValue 1710500000000) \<noteq> None"
proof -
  have "sameCalendarMonth utc (TimeValue 1709300000000) (TimeValue 1710500000000)"
    by code_simp
  then have "take 12 (determineOperation utc (TimeValue 1710500000000) (TimeValue 1709300000000)
     (Some (TimeValue 1710500000000)) (Some ''completed'')) = ''Created and ''"
    by (simp add: determineOperation_closed)
  then show ?thesis
    using determineOperation_open_issue
      [where tz = utc and upd = "TimeValue 1710500000000" and crt = "TimeValue 1709300000000"
         and cls = "Some (TimeValue 1710500000000)" and rsn = "Some ''completed''"]
    by simp
qed

section \<open>The pagination loop\<close>

lemma fetchPages_run:
  assumes "\<And>i. i \<le> n \<Longrightarrow> fetch (p + i) = Inr (pages (p + i))"
    and "\<And>i. i < n \<Longrightarrow> 100 \<le> length (pages (p + i))"
    and "length (pages (p + n)) < 100"
  shows "fetchPages fetch p acc req =
           Some (Inr (acc @ concat (map pages [p ..< p + n + 1])), req @ [p ..< p + n + 1])"
  using assms
proof (induction n arbitrary: p acc req)
  case 0
  then show ?case
    by (subst fetchPages.simps) (use "0.prems"(1) [of 0] "0.prems"(3) in simp)
next
  case (Suc n)
  have here: "fetch p = Inr (pages p)" "100 \<le> length (pages p)"
    using Suc.prems(1) [of 0] Suc.prems(2) [of 0] by simp_all
  have rest: "fetchPages fetch (Suc p) (acc @ pages p) (req @ [p]) =
      Some (Inr ((acc @ pages p) @ concat (map pages [Suc p ..< Suc p + n + 1])),
            (req @ [p]) @ [Suc p ..< Suc p + n + 1])"
  proof (rule Suc.IH)
    show "fetch (Suc p + i) = Inr (pages (Suc p + i))" if "i \<le> n" for i
      using Suc.prems(1) [of "Suc i"] that by simp
    show "100 \<le> length (pages (Suc p + i))" if "i < n" for i
      using Suc.prems(2) [of "Suc i"] that by simp
    show "length (pages (Suc p + n)) < 100"
      using Suc.prems(3) by simp
  qed
  have up: "[p ..< p + Suc n + 1] = p # [Suc p ..< Suc p + n + 1]"
    by (simp add: upt_conv_Cons)
  have step: "fetchPages fetch p acc req = fetchPages fetch (Suc p) (acc @ pages p) (req @ [p])"
    by (subst fetchPages.simps) (use here in simp)
  show ?case
    unfolding step rest up by simp
qed

text \<open>
  C8. When the pages of commits are \<open>pages 1\<close>, \<open>pages 2\<close>, ... and page \<open>k\<close> is the first
  with fewer than 100 records, the loop requests the pages 1 to \<open>k\<close> in order, ends, and
  has collected the concatenation of these pages in page order.
\<close>

theorem fetchPages_until_short_page:
  assumes "1 \<le> k"
    and "\<forall>p. 1 \<le> p \<and> p \<le> k \<longrightarrow> fetch p = Inr (pages p)"
    and "\<forall>p. 1 \<le> p \<and> p < k \<longrightarrow> 100 \<le> length (pages p)"
    and "length (pages k) < 100"
  shows "fetchPages fetch 1 [] [] =
           Some (Inr (concat (map pages [1 ..< Suc k])), [1 ..< Suc k])"
proof -
  obtain n where k: "k = 1 + n"
    using assms(1) by (metis le_iff_add)
  have "fetchPages fetch 1 [] [] =
          Some (Inr ([] @ concat (map pages [1 ..< 1 + n + 1])), [] @ [1 ..< 1 + n + 1])"
    by (rule fetchPages_run) (use assms k in auto)
  then show ?thesis
    by (simp add: k)
qed

theorem fetchPages_until_short_page_witness:
  "fetchPages (\<lambda>p. Inr (twoPages p)) 1 [] [] =
     Some (Inr (replicate 100 \<lparr>sha = ''a''\<rparr> @ [\<lparr>sha = ''b''\<rparr>]), [1, 2])"
proof -
  have u: "[1 ..< Suc 2] = [1, 2]"
    by code_simp
  have c: "concat (map twoPages [1, 2]) = replicate 100 \<lparr>sha = ''a''\<rparr> @ [\<lparr>sha = ''b''\<rparr>]"
    by (simp add: twoPages_def)
  have h1: "(1::nat) \<le> 2"
    by simp
  have h2: "\<forall>p. 1 \<le> p \<and> p \<le> 2 \<longrightarrow> (\<lambda>p. Inr (twoPages p)) p = Inr (twoPages p)"
    by simp
  have h3: "\<forall>p. 1 \<le> p \<and> p < 2 \<longrightarrow> 100 \<le> length (twoPages p)"
    by (simp add: twoPages_def)
  have h4: "length (twoPages 2) < 100"
    by (simp add: twoPages_def)
  show ?thesis
    using fetchPages_until_short_page [OF h1 h2 h3 h4]
    unfolding u c .
qed

section \<open>Ordering of the fetched records\<close>

lemma mset_sortInsert: "mset (sortInsert cmp x xs) = add_mset x (mset xs)"
  by (induction xs) simp_all

lemma mset_sort_js: "mset (sort_js cmp xs) = mset xs"
  by (induction xs) (simp_all add: mset_sortInsert)


lemma set_sort_js: "set (sort_js cmp xs) = set xs"
  using mset_sort_js [of cmp xs] by (metis set_mset_mset)










lemma dateRange_march_2024:
  "dateRange utcHost 2024 3 = Inr (ISO 1709251200000, ISO 1711843200000)"
  by code_simp

lemma parse_display_sample:
  "Date_parse utcHost (displayDate utcHost (TimeValue 1709629620000)) = TimeValue 1709629620000"
  "Date_parse utcHost (displayDate utcHost (TimeValue 1710955800000)) = TimeValue 1710955800000"
  by code_simp+

lemma sample_commit_dates:
  "date (toCommit utcHost rep commitDetail1) = displayDate utcHost (TimeValue 1709629620000)"
  "date (toCommit utcHost rep commitDetail2) = displayDate utcHost (TimeValue 1710955800000)"
  by (simp_all add: toCommit_def commitDetail1_def commitDetail2_def)

lemma sample_commits_of:
  "getMonthlyCommitActivity utcHost sampleApi ''acme'' rep 2024 3
     = Some (Inr [toCommit utcHost rep commitDetail1, toCommit utcHost rep commitDetail2], [])"
proof -
  have f: "fetchPages (listCommits sampleApi ''acme'' rep (ISO 1709251200000)
             (ISO 1711843200000)) 1 [] [] = Some (Inr [\<lparr>sha = ''c2''\<rparr>, \<lparr>sha = ''c1''\<rparr>], [1])"
    by (subst fetchPages.simps) (simp add: sampleApi_def)
  have p: "processCommits utcHost sampleApi ''acme'' rep [\<lparr>sha = ''c2''\<rparr>, \<lparr>sha = ''c1''\<rparr>]
             = ([toCommit utcHost rep commitDetail2, toCommit utcHost rep commitDetail1], [])"
    by (simp add: sampleApi_def)
  have s: "sort_js (compareCommits utcHost)
             [toCommit utcHost rep commitDetail2, toCommit utcHost rep commitDetail1]
           = [toCommit utcHost rep commitDetail1, toCommit utcHost rep commitDetail2]"
    by (simp add: compareCommits_def sample_commit_dates parse_display_sample getTime_def num_sub_def num_lt_def)
  show ?thesis
    by (simp only: getMonthlyCommitActivity_def dateRange_march_2024 sum.case prod.case
        option.case Let_def f p s)
qed




section \<open>Empty record sets and failed list fetches\<close>

lemma commitsReport_nonempty: "commitsReport fmt own rep monthName yr commits \<noteq> []"
  by (simp add: commitsReport_def)

lemma issuesReport_nonempty: "issuesReport fmt own rep monthName yr issues \<noteq> []"
  by (simp add: issuesReport_def)

lemma commits_report_null_iff:
  "(map_option fst (commits_generateMonthlyReport h api argv own rep yr mo) = Some (Inr None))
   = (map_option fst (getMonthlyCommitActivity h api own rep yr mo) = Some (Inr []))"
proof (cases "getMonthlyCommitActivity h api own rep yr mo")
  case None
  then show ?thesis
    by (simp add: commits_generateMonthlyReport_def)
next
  case (Some res)
  obtain out logs where res: "res = (out, logs)"
    by (cases res)
  show ?thesis
  proof (cases out)
    case (Inl e)
    then show ?thesis
      using Some res by (simp add: commits_generateMonthlyReport_def)
  next
    case (Inr commits)
    then show ?thesis
      using Some res
      by (cases "parseCommandLineArgs argv")
         (simp_all add: commits_generateMonthlyReport_def Let_def)
  qed
qed

lemma issues_report_null_iff:
  "(fst (issues_generateMonthlyReport h api argv own rep yr mo) = Inr None)
   = (fst (getMonthlyIssueActivity h api own rep yr mo) = Inr [])"
proof -
  obtain out logs where res: "getMonthlyIssueActivity h api own rep yr mo = (out, logs)"
    by (cases "getMonthlyIssueActivity h api own rep yr mo")
  show ?thesis
  proof (cases out)
    case (Inl e)
    then show ?thesis
      using res by (simp add: issues_generateMonthlyReport_def)
  next
    case (Inr issues)
    then show ?thesis
      using res
      by (cases "parseCommandLineArgs argv")
         (simp_all add: issues_generateMonthlyReport_def Let_def)
  qed
qed

lemma processRepository_null:
  assumes "map_option fst (generateReport authenticatedOwner name (year args) (month args))
             = Some (Inr None)"
  shows "map_option fst (processRepository sys activityConfig args activityType generateReport
           authenticatedOwner name fls) = Some (Inr fls)"
proof -
  from assms obtain logs where
    "generateReport authenticatedOwner name (year args) (month args) = Some (Inr None, logs)"
    by (cases "generateReport authenticatedOwner name (year args) (month args)") auto
  then show ?thesis
    by (simp add: processRepository_def Let_def orEmpty_def)
qed

lemma getMonthlyCommitActivity_fetch_fails:
  assumes "dateRange h yr mo = Inr (startDate, endDate)"
    and "listCommits api own rep startDate endDate 1 = Inl e"
  shows "getMonthlyCommitActivity h api own rep yr mo
           = Some (Inr [], [(LError, ''Error fetching commits: '' @ error_message e)])"
proof -
  have "fetchPages (listCommits api own rep startDate endDate) 1 [] [] = Some (Inl e, [1])"
    by (subst fetchPages.simps) (use assms(2) in simp)
  then show ?thesis
    by (simp add: getMonthlyCommitActivity_def assms(1))
qed

lemma getMonthlyCommitActivity_no_commits:
  assumes "dateRange h yr mo = Inr (startDate, endDate)"
    and "listCommits api own rep startDate endDate 1 = Inr []"
  shows "getMonthlyCommitActivity h api own rep yr mo = Some (Inr [], [])"
proof -
  have "fetchPages (listCommits api own rep startDate endDate) 1 [] [] = Some (Inr [], [1])"
    by (subst fetchPages.simps) (use assms(2) in simp)
  then show ?thesis
    by (simp add: getMonthlyCommitActivity_def assms(1))
qed

lemma getMonthlyIssueActivity_fetch_fails:
  assumes "dateRange h yr mo = Inr (startDate, endDate)"
    and "listForRepo api own rep startDate endDate = Inl e"
  shows "getMonthlyIssueActivity h api own rep yr mo
           = (Inr [], [(LError, ''Error fetching commits:'')])"
  by (simp add: getMonthlyIssueActivity_def assms)

lemma getMonthlyIssueActivity_no_issues:
  assumes "dateRange h yr mo = Inr (startDate, endDate)"
    and "listForRepo api own rep startDate endDate = Inr []"
  shows "getMonthlyIssueActivity h api own rep yr mo = (Inr [], [])"
  by (simp add: getMonthlyIssueActivity_def assms)

text \<open>
  C5. Each report generator returns \<open>null\<close> exactly when its fetcher returned the empty
  list, and when the generator returns \<open>null\<close> for a repository the driver leaves the file
  system as it was.
\<close>

theorem null_report_iff_no_records:
  "((map_option fst (commits_generateMonthlyReport h api argv own rep yr mo) = Some (Inr None))
      = (map_option fst (getMonthlyCommitActivity h api own rep yr mo) = Some (Inr []))) \<and>
   ((fst (issues_generateMonthlyReport h api argv own rep yr mo) = Inr None)
      = (fst (getMonthlyIssueActivity h api own rep yr mo) = Inr [])) \<and>
   (map_option fst (generateReport authenticatedOwner name (year args) (month args))
      = Some (Inr None) \<longrightarrow>
    map_option fst (processRepository sys activityConfig args activityType generateReport
      authenticatedOwner name fls) = Some (Inr fls))"
  by (intro conjI impI commits_report_null_iff issues_report_null_iff processRepository_null)

lemma parse_sampleArgv: "parseCommandLineArgs sampleArgv = Inr sampleArgs"
  by code_simp

lemma sampleArgs_fields: "year sampleArgs = 2024" "month sampleArgs = 3"
  by (simp_all add: sampleArgs_def)

theorem null_report_iff_no_records_witness:
  "map_option fst (getMonthlyCommitActivity utcHost emptyApi ''acme'' ''widgets'' 2024 3)
     = Some (Inr []) \<and>
   map_option fst (commits_generateMonthlyReport utcHost emptyApi sampleArgv ''acme''
     ''widgets'' 2024 3) = Some (Inr None) \<and>
   map_option fst (processRepository sampleSystem sampleConfig sampleArgs Commits
     (commits_generateMonthlyReport utcHost emptyApi sampleArgv) ''acme'' ''widgets'' noFiles)
     = Some (Inr noFiles)"
proof -
  have l: "listCommits emptyApi ''acme'' ''widgets'' (ISO 1709251200000) (ISO 1711843200000) 1
             = Inr []"
    by (simp add: emptyApi_def)
  have a: "map_option fst (getMonthlyCommitActivity utcHost emptyApi ''acme'' ''widgets'' 2024 3)
     = Some (Inr [])"
    using getMonthlyCommitActivity_no_commits [OF dateRange_march_2024 l] by simp
  note w = null_report_iff_no_records [where h = utcHost and api = emptyApi
      and argv = sampleArgv and own = "''acme''" and rep = "''widgets''" and yr = 2024
      and mo = 3 and generateReport = "commits_generateMonthlyReport utcHost emptyApi sampleArgv"
      and authenticatedOwner = "''acme''" and name = "''widgets''" and args = sampleArgs
      and sys = sampleSystem and activityConfig = sampleConfig and activityType = Commits
      and fls = noFiles]
  have b: "map_option fst (commits_generateMonthlyReport utcHost emptyApi sampleArgv ''acme''
     ''widgets'' 2024 3) = Some (Inr None)"
    using w a by blast
  have c: "map_option fst (processRepository sampleSystem sampleConfig sampleArgs Commits
     (commits_generateMonthlyReport utcHost emptyApi sampleArgv) ''acme'' ''widgets'' noFiles)
     = Some (Inr noFiles)"
    using w b unfolding sampleArgs_fields by blast
  show ?thesis
    using a b c by blast
qed

text \<open>
  C10. When the first list call for a repository's month throws, the fetcher returns the
  empty list (and logs the error), the report generator returns \<open>null\<close>, and the driver
  leaves the file system as it was: the same file system as for a month whose list is
  empty.
\<close>

theorem failed_list_fetch_writes_nothing:
  assumes "dateRange h (year args) (month args) = Inr (startDate, endDate)"
  shows
    "(listCommits api own name startDate endDate 1 = Inl e \<longrightarrow>
        getMonthlyCommitActivity h api own name (year args) (month args)
          = Some (Inr [], [(LError, ''Error fetching commits: '' @ error_message e)]) \<and>
        map_option fst (commits_generateMonthlyReport h api argv own name (year args) (month args))
          = Some (Inr None) \<and>
        map_option fst (processRepository sys activityConfig args Commits
            (commits_generateMonthlyReport h api argv) own name fls) = Some (Inr fls)) \<and>
     (listCommits api own name startDate endDate 1 = Inr [] \<longrightarrow>
        map_option fst (processRepository sys activityConfig args Commits
            (commits_generateMonthlyReport h api argv) own name fls) = Some (Inr fls)) \<and>
     (listForRepo api own name startDate endDate = Inl e \<longrightarrow>
        getMonthlyIssueActivity h api own name (year args) (month args)
          = (Inr [], [(LError, ''Error fetching commits:'')]) \<and>
        fst (issues_generateMonthlyReport h api argv own name (year args) (month args))
          = Inr None \<and>
        map_option fst (processRepository sys activityConfig args Issues
            (\<lambda>own rep yr mo. Some (issues_generateMonthlyReport h api argv own rep yr mo))
            own name fls) = Some (Inr fls)) \<and>
     (listForRepo api own name startDate endDate = Inr [] \<longrightarrow>
        map_option fst (processRepository sys activityConfig args Issues
            (\<lambda>own rep yr mo. Some (issues_generateMonthlyReport h api argv own rep yr mo))
            own name fls) = Some (Inr fls))"
proof (intro conjI impI)
  assume f: "listCommits api own name startDate endDate 1 = Inl e"
  show a: "getMonthlyCommitActivity h api own name (year args) (month args)
          = Some (Inr [], [(LError, ''Error fetching commits: '' @ error_message e)])"
    using assms f by (rule getMonthlyCommitActivity_fetch_fails)
  show b: "map_option fst
         (commits_generateMonthlyReport h api argv own name (year args) (month args))
          = Some (Inr None)"
    by (subst commits_report_null_iff) (simp add: a)
  from b show "map_option fst (processRepository sys activityConfig args Commits
            (commits_generateMonthlyReport h api argv) own name fls) = Some (Inr fls)"
    by (rule processRepository_null)
next
  assume f: "listCommits api own name startDate endDate 1 = Inr []"
  have a: "getMonthlyCommitActivity h api own name (year args) (month args) = Some (Inr [], [])"
    using assms f by (rule getMonthlyCommitActivity_no_commits)
  have "map_option fst
         (commits_generateMonthlyReport h api argv own name (year args) (month args))
          = Some (Inr None)"
    by (subst commits_report_null_iff) (simp add: a)
  then show "map_option fst (processRepository sys activityConfig args Commits
            (commits_generateMonthlyReport h api argv) own name fls) = Some (Inr fls)"
    by (rule processRepository_null)
next
  assume f: "listForRepo api own name startDate endDate = Inl e"
  show a: "getMonthlyIssueActivity h api own name (year args) (month args)
          = (Inr [], [(LError, ''Error fetching commits:'')])"
    using assms f by (rule getMonthlyIssueActivity_fetch_fails)
  show b: "fst (issues_generateMonthlyReport h api argv own name (year args) (month args))
          = Inr None"
    by (subst issues_report_null_iff) (simp add: a)
  from b show "map_option fst (processRepository sys activityConfig args Issues
            (\<lambda>own rep yr mo. Some (issues_generateMonthlyReport h api argv own rep yr mo))
            own name fls) = Some (Inr fls)"
    by (intro processRepository_null) simp
next
  assume f: "listForRepo api own name startDate endDate = Inr []"
  have a: "getMonthlyIssueActivity h api own name (year args) (month args) = (Inr [], [])"
    using assms f by (rule getMonthlyIssueActivity_no_issues)
  have "fst (issues_generateMonthlyReport h api argv own name (year args) (month args))
          = Inr None"
    by (subst issues_report_null_iff) (simp add: a)
  then show "map_option fst (processRepository sys activityConfig args Issues
            (\<lambda>own rep yr mo. Some (issues_generateMonthlyReport h api argv own rep yr mo))
            own name fls) = Some (Inr fls)"
    by (intro processRepository_null) simp
qed

theorem failed_list_fetch_writes_nothing_witness:
  "dateRange utcHost (year sampleArgs) (month sampleArgs)
     = Inr (ISO 1709251200000, ISO 1711843200000) \<and>
   listCommits failingApi ''acme'' ''widgets'' (ISO 1709251200000) (ISO 1711843200000) 1
     = Inl (Error ''Bad gateway'') \<and>
   listForRepo failingApi ''acme'' ''widgets'' (ISO 1709251200000) (ISO 1711843200000)
     = Inl (Error ''Bad gateway'') \<and>
   getMonthlyCommitActivity utcHost failingApi ''acme'' ''widgets'' 2024 3
     = Some (Inr [], [(LError, ''Error fetching commits: Bad gateway'')]) \<and>
   map_option fst (processRepository sampleSystem sampleConfig sampleArgs Commits
       (commits_generateMonthlyReport utcHost failingApi sampleArgv) ''acme'' ''widgets'' noFiles)
     = Some (Inr noFiles) \<and>
   map_option fst (processRepository sampleSystem sampleConfig sampleArgs Commits
       (commits_generateMonthlyReport utcHost emptyApi sampleArgv) ''acme'' ''widgets'' noFiles)
     = Some (Inr noFiles) \<and>
   map_option fst (processRepository sampleSystem sampleConfig sampleArgs Issues
       (\<lambda>own rep yr mo. Some (issues_generateMonthlyReport utcHost failingApi sampleArgv own rep yr mo))
       ''acme'' ''widgets'' noFiles)
     = Some (Inr noFiles)"
proof -
  have r: "dateRange utcHost (year sampleArgs) (month sampleArgs)
     = Inr (ISO 1709251200000, ISO 1711843200000)"
    by (simp add: sampleArgs_fields dateRange_march_2024)
  have lc: "listCommits failingApi ''acme'' ''widgets'' (ISO 1709251200000) (ISO 1711843200000) 1
     = Inl (Error ''Bad gateway'')"
    by (simp add: failingApi_def)
  have li: "listForRepo failingApi ''acme'' ''widgets'' (ISO 1709251200000) (ISO 1711843200000)
     = Inl (Error ''Bad gateway'')"
    by (simp add: failingApi_def)
  have le: "listCommits emptyApi ''acme'' ''widgets'' (ISO 1709251200000) (ISO 1711843200000) 1
     = Inr []"
    by (simp add: emptyApi_def)
  note f = failed_list_fetch_writes_nothing [OF r, where api = failingApi
      and own = "''acme''" and name = "''widgets''" and e = "Error ''Bad gateway''"
      and argv = sampleArgv and sys = sampleSystem and activityConfig = sampleConfig
      and fls = noFiles]
  note n = failed_list_fetch_writes_nothing [OF r, where api = emptyApi
      and own = "''acme''" and name = "''widgets''" and e = "Error ''Bad gateway''"
      and argv = sampleArgv and sys = sampleSystem and activityConfig = sampleConfig
      and fls = noFiles]
  have a: "getMonthlyCommitActivity utcHost failingApi ''acme'' ''widgets'' 2024 3
     = Some (Inr [], [(LError, ''Error fetching commits: Bad gateway'')])"
    using f lc by (simp add: sampleArgs_fields)
  have b: "map_option fst (processRepository sampleSystem sampleConfig sampleArgs Commits
       (commits_generateMonthlyReport utcHost failingApi sampleArgv) ''acme'' ''widgets'' noFiles)
     = Some (Inr noFiles)"
    using f lc by blast
  have c: "map_option fst (processRepository sampleSystem sampleConfig sampleArgs Commits
       (commits_generateMonthlyReport utcHost emptyApi sampleArgv) ''acme'' ''widgets'' noFiles)
     = Some (Inr noFiles)"
    using n le by blast
  have d: "map_option fst (processRepository sampleSystem sampleConfig sampleArgs Issues
       (\<lambda>own rep yr mo. Some (issues_generateMonthlyReport utcHost failingApi sampleArgv own rep yr mo))
       ''acme'' ''widgets'' noFiles)
     = Some (Inr noFiles)"
    using f li by blast
  show ?thesis
    using r lc li a b c d by blast
qed

section \<open>Failures in the repository driver\<close>

lemma processLoop_append:
  "processLoop sys cfg args t gen own (pre @ rest) fls =
     (case processLoop sys cfg args t gen own pre fls of
        None \<Rightarrow> None
      | Some (Some e, fls1, logs1) \<Rightarrow> Some (Some e, fls1, logs1)
      | Some (None, fls1, logs1) \<Rightarrow>
          (case processLoop sys cfg args t gen own rest fls1 of
             None \<Rightarrow> None
           | Some (r, fls2, logs2) \<Rightarrow> Some (r, fls2, logs1 @ logs2)))"
proof (induction pre arbitrary: fls)
  case Nil
  then show ?case
    by (simp split: option.splits)
next
  case (Cons name pre)
  show ?case
  proof (cases "processRepository sys cfg args t gen own name fls")
    case None
    then show ?thesis by simp
  next
    case (Some res)
    obtain out logs where res: "res = (out, logs)"
      by (cases res)
    show ?thesis
    proof (cases out)
      case (Inl e)
      then show ?thesis
        using Some res by simp
    next
      case (Inr fls1)
      then show ?thesis
        using Some res Cons.IH [of fls1]
        by (simp split: option.splits prod.splits)
    qed
  qed
qed

lemma processLoop_failure:
  assumes "processLoop sys cfg args t gen own pre fls = Some (None, fls1, logs1)"
    and "processRepository sys cfg args t gen own name fls1 = Some (Inl e, logs2)"
  shows "processLoop sys cfg args t gen own (pre @ name # rest) fls
           = Some (Some e, fls1, logs1 @ logs2)"
  by (simp add: processLoop_append assms)

lemma processRepository_failure_source:
  assumes "processRepository sys cfg args t gen own name fls = Some (Inl e, logs)"
  shows "(\<exists>l. gen own name (year args) (month args) = Some (Inl e, l)) \<or>
         mkdir sys (dirname (outputPathOf sys (year args) (month args) own name t)) = Some e \<or>
         writeFile sys (outputPathOf sys (year args) (month args) own name t) = Some e"
  using assms
  by (auto simp: processRepository_def Let_def
      split: if_splits option.splits sum.splits prod.splits)

lemma getMonthlyCommitActivity_page_fails:
  assumes "dateRange h yr mo = Inr (startDate, endDate)"
    and "fetchPages (listCommits api own rep startDate endDate) 1 [] [] = Some (Inl e, requested)"
  shows "getMonthlyCommitActivity h api own rep yr mo
           = Some (Inr [], [(LError, ''Error fetching commits: '' @ error_message e)])"
  using assms(2) by (simp add: getMonthlyCommitActivity_def assms(1))

lemma processLoop_unchanged_step:
  assumes "map_option fst (processRepository sys cfg args t gen own name fls) = Some (Inr fls)"
  shows "map_option (\<lambda>r. (fst r, fst (snd r))) (processLoop sys cfg args t gen own (name # rest) fls)
           = map_option (\<lambda>r. (fst r, fst (snd r))) (processLoop sys cfg args t gen own rest fls)"
proof -
  from assms obtain logs where
    "processRepository sys cfg args t gen own name fls = Some (Inr fls, logs)"
    by (cases "processRepository sys cfg args t gen own name fls") auto
  then show ?thesis
    by (cases "processLoop sys cfg args t gen own rest fls") auto
qed

text \<open>
  C3, as amended. A failed page or list fetch does not reach the driver: the fetcher
  catches it, logs it and returns the empty list, and the loop goes on with the remaining
  repositories as if the repository were not there. The driver has no handler of its
  own: a failure that reaches the loop while a repository is processed comes from the
  report generator, from \<open>mkdir\<close> or from \<open>writeFile\<close>; it ends the loop with that error,
  the file system stays as the earlier repositories left it, and the remaining
  repositories are not processed.
\<close>

theorem driver_stops_at_first_failure:
  "(processLoop sys cfg args t gen own pre fls = Some (None, fls1, logs1) \<and>
    processRepository sys cfg args t gen own name fls1 = Some (Inl e, logs2) \<longrightarrow>
      processLoop sys cfg args t gen own (pre @ name # rest) fls
        = Some (Some e, fls1, logs1 @ logs2)) \<and>
   (processRepository sys cfg args t gen own name fls = Some (Inl e, logs) \<longrightarrow>
      (\<exists>l. gen own name (year args) (month args) = Some (Inl e, l)) \<or>
      mkdir sys (dirname (outputPathOf sys (year args) (month args) own name t)) = Some e \<or>
      writeFile sys (outputPathOf sys (year args) (month args) own name t) = Some e) \<and>
   (dateRange h (year args) (month args) = Inr (startDate, endDate) \<and>
    fetchPages (listCommits api own name startDate endDate) 1 [] [] = Some (Inl e, requested) \<longrightarrow>
      getMonthlyCommitActivity h api own name (year args) (month args)
        = Some (Inr [], [(LError, ''Error fetching commits: '' @ error_message e)]) \<and>
      map_option (\<lambda>r. (fst r, fst (snd r)))
        (processLoop sys cfg args Commits (commits_generateMonthlyReport h api argv) own
           (name # rest) fls)
      = map_option (\<lambda>r. (fst r, fst (snd r)))
          (processLoop sys cfg args Commits (commits_generateMonthlyReport h api argv) own
             rest fls)) \<and>
   (dateRange h (year args) (month args) = Inr (startDate, endDate) \<and>
    listForRepo api own name startDate endDate = Inl e \<longrightarrow>
      getMonthlyIssueActivity h api own name (year args) (month args)
        = (Inr [], [(LError, ''Error fetching commits:'')]) \<and>
      map_option (\<lambda>r. (fst r, fst (snd r)))
        (processLoop sys cfg args Issues
           (\<lambda>own rep yr mo. Some (issues_generateMonthlyReport h api argv own rep yr mo)) own
           (name # rest) fls)
      = map_option (\<lambda>r. (fst r, fst (snd r)))
          (processLoop sys cfg args Issues
             (\<lambda>own rep yr mo. Some (issues_generateMonthlyReport h api argv own rep yr mo)) own
             rest fls))"
proof (intro conjI impI)
  assume "processLoop sys cfg args t gen own pre fls = Some (None, fls1, logs1) \<and>
    processRepository sys cfg args t gen own name fls1 = Some (Inl e, logs2)"
  then show "processLoop sys cfg args t gen own (pre @ name # rest) fls
        = Some (Some e, fls1, logs1 @ logs2)"
    by (simp add: processLoop_failure)
next
  assume "processRepository sys cfg args t gen own name fls = Some (Inl e, logs)"
  then show "(\<exists>l. gen own name (year args) (month args) = Some (Inl e, l)) \<or>
      mkdir sys (dirname (outputPathOf sys (year args) (month args) own name t)) = Some e \<or>
      writeFile sys (outputPathOf sys (year args) (month args) own name t) = Some e"
    by (rule processRepository_failure_source)
next
  assume f: "dateRange h (year args) (month args) = Inr (startDate, endDate) \<and>
    fetchPages (listCommits api own name startDate endDate) 1 [] [] = Some (Inl e, requested)"
  then have f1: "dateRange h (year args) (month args) = Inr (startDate, endDate)"
    and f2: "fetchPages (listCommits api own name startDate endDate) 1 [] []
               = Some (Inl e, requested)"
    by simp_all
  show a: "getMonthlyCommitActivity h api own name (year args) (month args)
        = Some (Inr [], [(LError, ''Error fetching commits: '' @ error_message e)])"
    using f1 f2 by (rule getMonthlyCommitActivity_page_fails)
  have "map_option fst
         (commits_generateMonthlyReport h api argv own name (year args) (month args))
          = Some (Inr None)"
    by (subst commits_report_null_iff) (simp add: a)
  then have "map_option fst (processRepository sys cfg args Commits
            (commits_generateMonthlyReport h api argv) own name fls) = Some (Inr fls)"
    by (rule processRepository_null)
  then show "map_option (\<lambda>r. (fst r, fst (snd r)))
        (processLoop sys cfg args Commits (commits_generateMonthlyReport h api argv) own
           (name # rest) fls)
      = map_option (\<lambda>r. (fst r, fst (snd r)))
          (processLoop sys cfg args Commits (commits_generateMonthlyReport h api argv) own
             rest fls)"
    by (rule processLoop_unchanged_step)
next
  assume f: "dateRange h (year args) (month args) = Inr (startDate, endDate) \<and>
    listForRepo api own name startDate endDate = Inl e"
  then have f1: "dateRange h (year args) (month args) = Inr (startDate, endDate)"
    and f2: "listForRepo api own name startDate endDate = Inl e"
    by simp_all
  show a: "getMonthlyIssueActivity h api own name (year args) (month args)
        = (Inr [], [(LError, ''Error fetching commits:'')])"
    using f1 f2 by (rule getMonthlyIssueActivity_fetch_fails)
  have "fst (issues_generateMonthlyReport h api argv own name (year args) (month args))
          = Inr None"
    by (subst issues_report_null_iff) (simp add: a)
  then have "map_option fst (processRepository sys cfg args Issues
            (\<lambda>own rep yr mo. Some (issues_generateMonthlyReport h api argv own rep yr mo))
            own name fls) = Some (Inr fls)"
    by (intro processRepository_null) simp
  then show "map_option (\<lambda>r. (fst r, fst (snd r)))
        (processLoop sys cfg args Issues
           (\<lambda>own rep yr mo. Some (issues_generateMonthlyReport h api argv own rep yr mo)) own
           (name # rest) fls)
      = map_option (\<lambda>r. (fst r, fst (snd r)))
          (processLoop sys cfg args Issues
             (\<lambda>own rep yr mo. Some (issues_generateMonthlyReport h api argv own rep yr mo)) own
             rest fls)"
    by (rule processLoop_unchanged_step)
qed

subsection \<open>A run in which writing the first report fails\<close>

lemma month_name_march: "monthLong utcHost (newDate (LocalTZA utcHost) 2024 2 1) = ''March''"
  by code_simp

lemma sample_report:
  "commits_generateMonthlyReport utcHost sampleApi sampleArgv ''acme'' rep 2024 3
     = Some (Inr (Some (commitsReport csv ''acme'' rep ''March'' 2024
          [toCommit utcHost rep commitDetail1, toCommit utcHost rep commitDetail2])), [])"
  by (simp add: commits_generateMonthlyReport_def sample_commits_of parse_sampleArgv
      month_name_march sampleArgs_def)

lemma sample_paths:
  "outputPathOf sampleSystem 2024 3 ''acme'' ''widgets'' Commits = widgetsPath"
  "outputPathOf sampleSystem 2024 3 ''acme'' ''gadgets'' Commits = gadgetsPath"
  "outputPathOf readOnlySystem 2024 3 ''acme'' ''widgets'' Commits = widgetsPath"
  "outputPathOf readOnlySystem 2024 3 ''acme'' ''gadgets'' Commits = gadgetsPath"
  by code_simp+

lemma widgets_write_fails:
  "map_option fst (processRepository readOnlySystem sampleConfig sampleArgs Commits
       (commits_generateMonthlyReport utcHost sampleApi sampleArgv) ''acme'' ''widgets'' noFiles)
     = Some (Inl (Error ''EACCES: permission denied''))"
  by (simp add: processRepository_def sampleArgs_fields sample_paths sample_report Let_def
      existsSync_def noFiles_def orEmpty_def commitsReport_nonempty)
     (simp add: readOnlySystem_def sampleSystem_def sampleArgs_def orEmpty_def)

lemma gadgets_written:
  "map_option (\<lambda>r. fst (snd r) gadgetsPath)
     (processLoop sampleSystem sampleConfig sampleArgs Commits
       (commits_generateMonthlyReport utcHost sampleApi sampleArgv) ''acme'' [''gadgets'']
       noFiles)
     = Some (Some (commitsReport csv ''acme'' ''gadgets'' ''March'' 2024
          [toCommit utcHost ''gadgets'' commitDetail1, toCommit utcHost ''gadgets'' commitDetail2]))"
  by (simp add: processRepository_def sampleArgs_fields sample_paths sample_report Let_def
      existsSync_def noFiles_def orEmpty_def commitsReport_nonempty)
     (simp add: sampleSystem_def sampleArgs_def orEmpty_def)

lemma readOnly_run:
  "map_option (\<lambda>r. (fst r, fst (snd r) gadgetsPath))
     (processLoop readOnlySystem sampleConfig sampleArgs Commits
       (commits_generateMonthlyReport utcHost sampleApi sampleArgv) ''acme''
       [''widgets'', ''gadgets''] noFiles)
     = Some (Some (Error ''EACCES: permission denied''), None)"
proof -
  let ?step = "processRepository readOnlySystem sampleConfig sampleArgs Commits
       (commits_generateMonthlyReport utcHost sampleApi sampleArgv) ''acme'' ''widgets'' noFiles"
  from widgets_write_fails obtain logs where
    "?step = Some (Inl (Error ''EACCES: permission denied''), logs)"
    by (cases ?step) auto
  then show ?thesis
    by (simp add: noFiles_def)
qed

text \<open>
  C3, as stated, fails: writing the report of \<open>widgets\<close> throws, the loop ends with that
  error and \<open>gadgets\<close>, the remaining repository, gets no file, although its report is
  written when it is processed.
\<close>

theorem driver_failure_counterexample:
  "map_option (\<lambda>r. (fst r, fst (snd r) gadgetsPath))
     (processLoop readOnlySystem sampleConfig sampleArgs Commits
       (commits_generateMonthlyReport utcHost sampleApi sampleArgv) ''acme''
       [''widgets'', ''gadgets''] noFiles)
     = Some (Some (Error ''EACCES: permission denied''), None) \<and>
   map_option (\<lambda>r. fst (snd r) gadgetsPath)
     (processLoop sampleSystem sampleConfig sampleArgs Commits
       (commits_generateMonthlyReport utcHost sampleApi sampleArgv) ''acme'' [''gadgets'']
       noFiles)
     = Some (Some (commitsReport csv ''acme'' ''gadgets'' ''March'' 2024
          [toCommit utcHost ''gadgets'' commitDetail1, toCommit utcHost ''gadgets'' commitDetail2]))"
  using readOnly_run gadgets_written by blast

theorem driver_stops_at_first_failure_witness:
  "processLoop readOnlySystem sampleConfig sampleArgs Commits
     (commits_generateMonthlyReport utcHost sampleApi sampleArgv) ''acme'' [] noFiles
     = Some (None, noFiles, []) \<and>
   map_option fst (processRepository readOnlySystem sampleConfig sampleArgs Commits
     (commits_generateMonthlyReport utcHost sampleApi sampleArgv) ''acme'' ''widgets'' noFiles)
     = Some (Inl (Error ''EACCES: permission denied'')) \<and>
   map_option (\<lambda>r. (fst r, fst (snd r)))
     (processLoop readOnlySystem sampleConfig sampleArgs Commits
       (commits_generateMonthlyReport utcHost sampleApi sampleArgv) ''acme''
       ([] @ ''widgets'' # [''gadgets'']) noFiles)
     = Some (Some (Error ''EACCES: permission denied''), noFiles) \<and>
   writeFile readOnlySystem
     (outputPathOf readOnlySystem (year sampleArgs) (month sampleArgs) ''acme'' ''widgets'' Commits)
     = Some (Error ''EACCES: permission denied'') \<and>
   fetchPages (listCommits failingApi ''acme'' ''widgets'' (ISO 1709251200000)
     (ISO 1711843200000)) 1 [] [] = Some (Inl (Error ''Bad gateway''), [1]) \<and>
   listForRepo failingApi ''acme'' ''widgets'' (ISO 1709251200000) (ISO 1711843200000)
     = Inl (Error ''Bad gateway'') \<and>
   map_option (\<lambda>r. (fst r, fst (snd r)))
     (processLoop sampleSystem sampleConfig sampleArgs Commits
       (commits_generateMonthlyReport utcHost failingApi sampleArgv) ''acme''
       [''widgets''] noFiles)
     = Some (None, noFiles) \<and>
   map_option (\<lambda>r. (fst r, fst (snd r)))
     (processLoop sampleSystem sampleConfig sampleArgs Issues
       (\<lambda>own rep yr mo. Some (issues_generateMonthlyReport utcHost failingApi sampleArgv own rep yr mo))
       ''acme'' [''widgets''] noFiles)
     = Some (None, noFiles)"
proof -
  let ?G = "commits_generateMonthlyReport utcHost sampleApi sampleArgv"
  let ?step = "processRepository readOnlySystem sampleConfig sampleArgs Commits ?G
                 ''acme'' ''widgets'' noFiles"
  have a: "processLoop readOnlySystem sampleConfig sampleArgs Commits ?G ''acme'' [] noFiles
     = Some (None, noFiles, [])"
    by simp
  from widgets_write_fails obtain logs where
    b: "?step = Some (Inl (Error ''EACCES: permission denied''), logs)"
    by (cases ?step) auto
  note w = driver_stops_at_first_failure [where sys = readOnlySystem and cfg = sampleConfig
      and args = sampleArgs and t = Commits and gen = ?G and own = "''acme''" and pre = "[]"
      and fls = noFiles and ?fls1.0 = noFiles and ?logs1.0 = "[]" and name = "''widgets''"
      and e = "Error ''EACCES: permission denied''" and ?logs2.0 = logs
      and rest = "[''gadgets'']" and logs = logs]
  have c: "processLoop readOnlySystem sampleConfig sampleArgs Commits ?G ''acme''
       ([] @ ''widgets'' # [''gadgets'']) noFiles
     = Some (Some (Error ''EACCES: permission denied''), noFiles, [] @ logs)"
    using w a b by blast
  have g: "?G ''acme'' ''widgets'' (year sampleArgs) (month sampleArgs)
     \<noteq> Some (Inl (Error ''EACCES: permission denied''), l)" for l
    by (simp add: sampleArgs_fields sample_report)
  have m: "mkdir readOnlySystem (dirname (outputPathOf readOnlySystem (year sampleArgs)
     (month sampleArgs) ''acme'' ''widgets'' Commits)) \<noteq> Some (Error ''EACCES: permission denied'')"
    by (simp add: readOnlySystem_def sampleSystem_def)
  have d: "writeFile readOnlySystem
     (outputPathOf readOnlySystem (year sampleArgs) (month sampleArgs) ''acme'' ''widgets'' Commits)
     = Some (Error ''EACCES: permission denied'')"
    using w b g m by blast
  have r: "dateRange utcHost (year sampleArgs) (month sampleArgs)
     = Inr (ISO 1709251200000, ISO 1711843200000)"
    by (simp add: sampleArgs_fields dateRange_march_2024)
  have p: "fetchPages (listCommits failingApi ''acme'' ''widgets'' (ISO 1709251200000)
     (ISO 1711843200000)) 1 [] [] = Some (Inl (Error ''Bad gateway''), [1])"
    by (subst fetchPages.simps) (simp add: failingApi_def)
  have li: "listForRepo failingApi ''acme'' ''widgets'' (ISO 1709251200000) (ISO 1711843200000)
     = Inl (Error ''Bad gateway'')"
    by (simp add: failingApi_def)
  note v = driver_stops_at_first_failure [where sys = sampleSystem and cfg = sampleConfig
      and args = sampleArgs and h = utcHost and api = failingApi and argv = sampleArgv
      and own = "''acme''" and name = "''widgets''" and rest = "[]" and fls = noFiles
      and startDate = "ISO 1709251200000" and endDate = "ISO 1711843200000"
      and e = "Error ''Bad gateway''" and requested = "[1]"]
  have x: "map_option (\<lambda>r. (fst r, fst (snd r)))
     (processLoop sampleSystem sampleConfig sampleArgs Commits
       (commits_generateMonthlyReport utcHost failingApi sampleArgv) ''acme''
       [''widgets''] noFiles)
     = Some (None, noFiles)"
    using v r p by simp
  have y: "map_option (\<lambda>r. (fst r, fst (snd r)))
     (processLoop sampleSystem sampleConfig sampleArgs Issues
       (\<lambda>own rep yr mo. Some (issues_generateMonthlyReport utcHost failingApi sampleArgv own rep yr mo))
       ''acme'' [''widgets''] noFiles)
     = Some (None, noFiles)"
    using v r li by simp
  show ?thesis
    using a widgets_write_fails c d p li x y by simp
qed

section \<open>The date range of the fetchers\<close>

lemma calendar_examples:
  "(YearFromTime 0, MonthFromTime 0, DateFromTime 0) = (1970, 0, 1)"
  "(YearFromTime (- 1), MonthFromTime (- 1), DateFromTime (- 1)) = (1969, 11, 31)"
  "(YearFromTime 951782400000, MonthFromTime 951782400000, DateFromTime 951782400000)
     = (2000, 1, 29)"
  "(YearFromTime 4107542400000, MonthFromTime 4107542400000, DateFromTime 4107542400000)
     = (2100, 2, 1)"
  by code_simp+

text \<open>Every issue that the fetcher returns was updated inside the date range, both ends
  included.\<close>

lemma getMonthlyIssueActivity_in_range:
  assumes "getMonthlyIssueActivity h api own rep yr mo = (Inr issues, logs)"
    and "dateRange h yr mo = Inr (ISO s, ISO e)"
  shows "\<exists>raw. issues = map (toIssue h rep) raw \<and>
           (\<forall>i\<in>set raw. \<exists>u. api_updated_at i = Some (TimeValue u) \<and> s \<le> u \<and> u \<le> e)"
proof (cases "listForRepo api own rep (ISO s) (ISO e)")
  case (Inl err)
  then have "issues = map (toIssue h rep) []"
    using assms by (simp add: getMonthlyIssueActivity_def)
  then show ?thesis
    by (intro exI [of _ "[]"]) simp
next
  case (Inr data)
  let ?raw = "sort_js compareIssues (filter (inDateRange (ISO s) (ISO e)) data)"
  have i: "issues = map (toIssue h rep) ?raw"
    using assms Inr by (simp add: getMonthlyIssueActivity_def)
  have "\<exists>u. api_updated_at i = Some (TimeValue u) \<and> s \<le> u \<and> u \<le> e"
    if "inDateRange (ISO s) (ISO e) i" for i
    using that
    by (cases "api_updated_at i")
       (auto simp: inDateRange_def dateOrInvalid_def date_ge_def date_le_def num_le_def
          getTime_def split: Date.splits)
  then show ?thesis
    using i by (intro exI [of _ ?raw]) (simp add: set_sort_js)
qed

text \<open>
  C2, at the failing input. For March 2024 in UTC the range ends on 31 March at 00:00,
  and an issue updated on 31 March 2024 at 12:00 is left out: the last day of the month
  is outside the range but for its first instant.
\<close>

theorem last_day_issue_dropped:
  "dateRange utcHost 2024 3 = Inr (ISO 1709251200000, ISO 1711843200000) \<and>
   (YearFromTime 1711843200000, MonthFromTime 1711843200000, DateFromTime 1711843200000,
    TimeWithinDay 1711843200000) = (2024, 2, 31, 0) \<and>
   (YearFromTime 1711886400000, MonthFromTime 1711886400000, DateFromTime 1711886400000,
    TimeWithinDay 1711886400000) = (2024, 2, 31, 43200000) \<and>
   listForRepo lastDayApi ''acme'' ''widgets'' (ISO 1709251200000) (ISO 1711843200000)
     = Inr [issueOn 7 1711886400000 ''Late''] \<and>
   getMonthlyIssueActivity utcHost lastDayApi ''acme'' ''widgets'' 2024 3 = (Inr [], [])"
proof -
  have c: "(YearFromTime 1711843200000, MonthFromTime 1711843200000, DateFromTime 1711843200000,
    TimeWithinDay 1711843200000) = (2024, 2, 31, 0)"
    "(YearFromTime 1711886400000, MonthFromTime 1711886400000, DateFromTime 1711886400000,
    TimeWithinDay 1711886400000) = (2024, 2, 31, 43200000)"
    by code_simp+
  have l: "listForRepo lastDayApi ''acme'' ''widgets'' (ISO 1709251200000) (ISO 1711843200000)
     = Inr [issueOn 7 1711886400000 ''Late'']"
    by (simp add: lastDayApi_def)
  have f: "filter (inDateRange (ISO 1709251200000) (ISO 1711843200000))
             [issueOn 7 1711886400000 ''Late''] = []"
    by (simp add: inDateRange_def issueOn_def dateOrInvalid_def date_ge_def date_le_def
        num_le_def getTime_def)
  have g: "getMonthlyIssueActivity utcHost lastDayApi ''acme'' ''widgets'' 2024 3 = (Inr [], [])"
    by (simp only: getMonthlyIssueActivity_def dateRange_march_2024 sum.case prod.case l f
        sort_js.simps list.map)
  show ?thesis
    using dateRange_march_2024 c l g by simp
qed

section \<open>Commas and newlines in the CSV rows\<close>

lemma replaceAll_removes:
  "c \<notin> set r \<Longrightarrow> c \<notin> set (replaceAll c r s)"
  by (induction s) (auto simp: replaceAll_def)

lemma replaceAll_keeps_out:
  "d \<notin> set s \<Longrightarrow> d \<notin> set r \<Longrightarrow> d \<notin> set (replaceAll c r s)"
  by (induction s) (auto simp: replaceAll_def)

text \<open>The commit message and the issue body are embedded with no comma and no newline.\<close>

lemma escaped_clean:
  "CHR '','' \<notin> set (truncated (escaped s)) \<and> newline \<notin> set (truncated (escaped s))"
proof -
  have a: "CHR '','' \<notin> set (replaceAll (CHR '','') '';'' s)"
    by (rule replaceAll_removes) simp
  have "CHR '','' \<notin> set (escaped s)"
    unfolding escaped_def using a by (rule replaceAll_keeps_out) simp
  moreover have "newline \<notin> set (escaped s)"
    unfolding escaped_def by (rule replaceAll_removes) (simp add: newline_def)
  ultimately show ?thesis
    by (auto simp: truncated_def newline_def dest: in_set_takeD)
qed

text \<open>
  C6, at the failing input. The row of an issue with the title \<open>Fix a, b\<close> and the body
  \<open>Steps, then more\<close>: the comma of the body has become a semicolon, the comma of the
  title is in the row as it was.
\<close>

theorem issue_title_comma_kept:
  "issueCsvRow ''acme'' (toIssue utcHost ''widgets'' (issueOn 5 1710028800000 ''Fix a, b''))
     = ''03/10/2024 12:00 AM,03/01/2024 12:00 AM,,unassigned,acme,widgets,ann,Fix a, b,open,''
         @ [dquote] @ ''bug'' @ [dquote] @ '',,Steps; then more'' \<and>
   title (toIssue utcHost ''widgets'' (issueOn 5 1710028800000 ''Fix a, b'')) = ''Fix a, b'' \<and>
   listForRepo commaApi ''acme'' ''widgets'' (ISO 1709251200000) (ISO 1711843200000)
     = Inr [issueOn 5 1710028800000 ''Fix a, b''] \<and>
   fst (issues_generateMonthlyReport utcHost commaApi sampleArgv ''acme'' ''widgets'' 2024 3)
     = Inr (Some (issuesReport csv ''acme'' ''widgets'' ''March'' 2024
         [toIssue utcHost ''widgets'' (issueOn 5 1710028800000 ''Fix a, b'')]))"
proof -
  have r: "issueCsvRow ''acme'' (toIssue utcHost ''widgets'' (issueOn 5 1710028800000 ''Fix a, b''))
     = ''03/10/2024 12:00 AM,03/01/2024 12:00 AM,,unassigned,acme,widgets,ann,Fix a, b,open,''
         @ [dquote] @ ''bug'' @ [dquote] @ '',,Steps; then more''"
    by code_simp
  have t: "title (toIssue utcHost ''widgets'' (issueOn 5 1710028800000 ''Fix a, b'')) = ''Fix a, b''"
    by (simp add: toIssue_def issueOn_def Let_def)
  have l: "listForRepo commaApi ''acme'' ''widgets'' (ISO 1709251200000) (ISO 1711843200000)
     = Inr [issueOn 5 1710028800000 ''Fix a, b'']"
    by (simp add: commaApi_def)
  have f: "filter (inDateRange (ISO 1709251200000) (ISO 1711843200000))
             [issueOn 5 1710028800000 ''Fix a, b''] = [issueOn 5 1710028800000 ''Fix a, b'']"
    by (simp add: inDateRange_def issueOn_def dateOrInvalid_def date_ge_def date_le_def
        num_le_def getTime_def)
  have g: "getMonthlyIssueActivity utcHost commaApi ''acme'' ''widgets'' 2024 3
             = (Inr [toIssue utcHost ''widgets'' (issueOn 5 1710028800000 ''Fix a, b'')], [])"
    by (simp only: getMonthlyIssueActivity_def dateRange_march_2024 sum.case prod.case l f
        sort_js.simps sortInsert.simps list.map)
  have p: "fst (issues_generateMonthlyReport utcHost commaApi sampleArgv ''acme'' ''widgets'' 2024 3)
     = Inr (Some (issuesReport csv ''acme'' ''widgets'' ''March'' 2024
         [toIssue utcHost ''widgets'' (issueOn 5 1710028800000 ''Fix a, b'')]))"
    by (simp add: issues_generateMonthlyReport_def g parse_sampleArgv month_name_march
        sampleArgs_def)
  show ?thesis
    using r t l p by simp
qed

section \<open>Truncation in the CSV output\<close>

lemma length_replaceAll_char: "length (replaceAll c [r] s) = length s"
  by (induction s) (simp_all add: replaceAll_def)

lemma length_escaped: "length (escaped s) = length s"
  by (simp add: escaped_def length_replaceAll_char)

lemma toString_2: "toString 2 = ''2''"
  by code_simp

lemma commits_csv_report:
  assumes "getMonthlyCommitActivity h api own rep yr mo = Some (Inr commits, logs)"
    and "commits \<noteq> []"
    and "parseCommandLineArgs argv = Inr args"
    and "format args = csv"
  shows "commits_generateMonthlyReport h api argv own rep yr mo =
           Some (Inr (Some (
             ''# GitHub Commits in '' @ rep @ '' owned by '' @ own @ '' for ''
               @ monthLong h (newDate (LocalTZA h) yr (mo - 1) 1) @ '' '' @ toString yr
               @ [newline, newline]
             @ ''```csv'' @ [newline]
             @ join [newline]
                 (''Date,Owner,Repository,Author,Additions,Deletions,Files,Message''
                    # map (commitCsvRow own) commits)
             @ ''```'' @ [newline, newline])), logs)"
  using assms
  by (simp add: commits_generateMonthlyReport_def commitsReport_def Let_def)

text \<open>
  C4. With the format \<open>csv\<close> and a non-empty list of commits, the report is the title, the
  opening fence, the header row and one row for each commit joined by newlines, and the
  closing fence. In the row of a commit whose escaped message has exactly 1025
  characters the message field is the first 1021 characters followed by three dots,
  1024 characters in all; in the row of a commit with 51 files the files field is the
  first 49 entries followed by the one marker \<open>...and 2 more files\<close>.
\<close>

theorem csv_truncation:
  "(getMonthlyCommitActivity h api own rep yr mo = Some (Inr commits, logs) \<and>
    commits \<noteq> [] \<and> parseCommandLineArgs argv = Inr args \<and> format args = csv \<longrightarrow>
      commits_generateMonthlyReport h api argv own rep yr mo =
        Some (Inr (Some (
          ''# GitHub Commits in '' @ rep @ '' owned by '' @ own @ '' for ''
            @ monthLong h (newDate (LocalTZA h) yr (mo - 1) 1) @ '' '' @ toString yr
            @ [newline, newline]
          @ ''```csv'' @ [newline]
          @ join [newline]
              (''Date,Owner,Repository,Author,Additions,Deletions,Files,Message''
                 # map (commitCsvRow own) commits)
          @ ''```'' @ [newline, newline])), logs)) \<and>
   (length (escaped (message commit)) = 1025 \<longrightarrow>
      commitCsvRow own commit =
        date commit @ '','' @ own @ '','' @ Commit.repo commit @ '','' @ Commit.author commit @ '',''
          @ toString (additions commit) @ '','' @ toString (deletions commit) @ '',''
          @ [dquote] @ join '','' (truncatedFiles (files commit)) @ [dquote] @ '',''
          @ take 1021 (escaped (message commit)) @ ''...'' \<and>
      length (take 1021 (escaped (message commit)) @ ''...'') = 1024) \<and>
   (length (files commit) = 51 \<longrightarrow>
      commitCsvRow own commit =
        date commit @ '','' @ own @ '','' @ Commit.repo commit @ '','' @ Commit.author commit @ '',''
          @ toString (additions commit) @ '','' @ toString (deletions commit) @ '',''
          @ [dquote] @ join '','' (take 49 (files commit) @ [''...and 2 more files''])
          @ [dquote] @ '','' @ truncated (escaped (message commit))) \<and>
   (length (escaped (message commit)) = 1025 \<and> length (files commit) = 51 \<longrightarrow>
      commitCsvRow own commit =
        date commit @ '','' @ own @ '','' @ Commit.repo commit @ '','' @ Commit.author commit @ '',''
          @ toString (additions commit) @ '','' @ toString (deletions commit) @ '',''
          @ [dquote] @ join '','' (take 49 (files commit) @ [''...and 2 more files''])
          @ [dquote] @ '','' @ take 1021 (escaped (message commit)) @ ''...'')"
proof (intro conjI impI)
  assume "getMonthlyCommitActivity h api own rep yr mo = Some (Inr commits, logs) \<and>
    commits \<noteq> [] \<and> parseCommandLineArgs argv = Inr args \<and> format args = csv"
  then have a: "getMonthlyCommitActivity h api own rep yr mo = Some (Inr commits, logs)"
    and b: "commits \<noteq> []" and c: "parseCommandLineArgs argv = Inr args"
    and d: "format args = csv"
    by simp_all
  show "commits_generateMonthlyReport h api argv own rep yr mo =
        Some (Inr (Some (
          ''# GitHub Commits in '' @ rep @ '' owned by '' @ own @ '' for ''
            @ monthLong h (newDate (LocalTZA h) yr (mo - 1) 1) @ '' '' @ toString yr
            @ [newline, newline]
          @ ''```csv'' @ [newline]
          @ join [newline]
              (''Date,Owner,Repository,Author,Additions,Deletions,Files,Message''
                 # map (commitCsvRow own) commits)
          @ ''```'' @ [newline, newline])), logs)"
    using a b c d by (rule commits_csv_report)
next
  assume "length (escaped (message commit)) = 1025"
  then show "commitCsvRow own commit =
        date commit @ '','' @ own @ '','' @ Commit.repo commit @ '','' @ Commit.author commit @ '',''
          @ toString (additions commit) @ '','' @ toString (deletions commit) @ '',''
          @ [dquote] @ join '','' (truncatedFiles (files commit)) @ [dquote] @ '',''
          @ take 1021 (escaped (message commit)) @ ''...''"
    by (simp add: commitCsvRow_def truncated_def)
next
  assume "length (escaped (message commit)) = 1025"
  then show "length (take 1021 (escaped (message commit)) @ ''...'') = 1024"
    by simp
next
  assume "length (files commit) = 51"
  then show "commitCsvRow own commit =
        date commit @ '','' @ own @ '','' @ Commit.repo commit @ '','' @ Commit.author commit @ '',''
          @ toString (additions commit) @ '','' @ toString (deletions commit) @ '',''
          @ [dquote] @ join '','' (take 49 (files commit) @ [''...and 2 more files''])
          @ [dquote] @ '','' @ truncated (escaped (message commit))"
    by (simp add: commitCsvRow_def truncatedFiles_def toString_2)
next
  assume "length (escaped (message commit)) = 1025 \<and> length (files commit) = 51"
  then show "commitCsvRow own commit =
        date commit @ '','' @ own @ '','' @ Commit.repo commit @ '','' @ Commit.author commit @ '',''
          @ toString (additions commit) @ '','' @ toString (deletions commit) @ '',''
          @ [dquote] @ join '','' (take 49 (files commit) @ [''...and 2 more files''])
          @ [dquote] @ '','' @ take 1021 (escaped (message commit)) @ ''...''"
    by (simp add: commitCsvRow_def truncatedFiles_def truncated_def toString_2)
qed

lemma long_commit_fetched:
  "getMonthlyCommitActivity utcHost longApi ''acme'' ''widgets'' 2024 3
     = Some (Inr [toCommit utcHost ''widgets'' longDetail], [])"
proof -
  have f: "fetchPages (listCommits longApi ''acme'' ''widgets'' (ISO 1709251200000)
             (ISO 1711843200000)) 1 [] [] = Some (Inr [\<lparr>sha = ''long''\<rparr>], [1])"
    by (subst fetchPages.simps) (simp add: longApi_def)
  have p: "processCommits utcHost longApi ''acme'' ''widgets'' [\<lparr>sha = ''long''\<rparr>]
             = ([toCommit utcHost ''widgets'' longDetail], [])"
    by (simp add: longApi_def)
  have s: "sort_js (compareCommits utcHost) [toCommit utcHost ''widgets'' longDetail]
             = [toCommit utcHost ''widgets'' longDetail]"
    by simp
  show ?thesis
    by (simp only: getMonthlyCommitActivity_def dateRange_march_2024 sum.case prod.case
        option.case Let_def f p s)
qed

lemma long_commit_fields:
  "escaped (message (toCommit utcHost ''widgets'' longDetail))
     = ''a;b '' @ replicate 1021 (CHR ''x'')"
  "length (files (toCommit utcHost ''widgets'' longDetail)) = 51"
  "take 49 (files (toCommit utcHost ''widgets'' longDetail))
     = map (\<lambda>i. ''f'' @ natToString i) [0 ..< 49]"
  "date (toCommit utcHost ''widgets'' longDetail) = ''03/15/2024 5:07 PM''"
  "Commit.repo (toCommit utcHost ''widgets'' longDetail) = ''widgets''"
  "Commit.author (toCommit utcHost ''widgets'' longDetail) = ''dev''"
  "toString (additions (toCommit utcHost ''widgets'' longDetail)) = ''1''"
  "toString (deletions (toCommit utcHost ''widgets'' longDetail)) = ''0''"
proof -
  show "escaped (message (toCommit utcHost ''widgets'' longDetail))
     = ''a;b '' @ replicate 1021 (CHR ''x'')"
    by (simp add: toCommit_def longDetail_def escaped_def replaceAll_def newline_def)
  show "length (files (toCommit utcHost ''widgets'' longDetail)) = 51"
    by (simp add: toCommit_def longDetail_def)
  show "take 49 (files (toCommit utcHost ''widgets'' longDetail))
     = map (\<lambda>i. ''f'' @ natToString i) [0 ..< 49]"
    by (simp add: toCommit_def longDetail_def take_map)
  have "displayDate utcHost (TimeValue 1710522420000) = ''03/15/2024 5:07 PM''"
    by code_simp
  then show "date (toCommit utcHost ''widgets'' longDetail) = ''03/15/2024 5:07 PM''"
    by (simp add: toCommit_def longDetail_def)
  show "Commit.repo (toCommit utcHost ''widgets'' longDetail) = ''widgets''"
    by (simp add: toCommit_def)
  show "Commit.author (toCommit utcHost ''widgets'' longDetail) = ''dev''"
    by (simp add: toCommit_def longDetail_def)
  have "toString 1 = ''1''" "toString 0 = ''0''"
    by code_simp+
  then show "toString (additions (toCommit utcHost ''widgets'' longDetail)) = ''1''"
    "toString (deletions (toCommit utcHost ''widgets'' longDetail)) = ''0''"
    by (simp_all add: toCommit_def longDetail_def)
qed

theorem csv_truncation_witness:
  "getMonthlyCommitActivity utcHost longApi ''acme'' ''widgets'' 2024 3
     = Some (Inr [toCommit utcHost ''widgets'' longDetail], []) \<and>
   parseCommandLineArgs sampleArgv = Inr sampleArgs \<and> format sampleArgs = csv \<and>
   length (escaped (message (toCommit utcHost ''widgets'' longDetail))) = 1025 \<and>
   length (files (toCommit utcHost ''widgets'' longDetail)) = 51 \<and>
   commits_generateMonthlyReport utcHost longApi sampleArgv ''acme'' ''widgets'' 2024 3 =
     Some (Inr (Some (
       ''# GitHub Commits in widgets owned by acme for March 2024'' @ [newline, newline]
       @ ''```csv'' @ [newline]
       @ ''Date,Owner,Repository,Author,Additions,Deletions,Files,Message'' @ [newline]
       @ ''03/15/2024 5:07 PM,acme,widgets,dev,1,0,'' @ [dquote]
       @ join '','' (map (\<lambda>i. ''f'' @ natToString i) [0 ..< 49] @ [''...and 2 more files''])
       @ [dquote] @ '',a;b '' @ replicate 1017 (CHR ''x'') @ ''...''
       @ ''```'' @ [newline, newline])), [])"
proof -
  let ?c = "toCommit utcHost ''widgets'' longDetail"
  have l: "length (escaped (message ?c)) = 1025"
    by (simp add: long_commit_fields)
  have fmt: "format sampleArgs = csv"
    by (simp add: sampleArgs_def)
  have ne: "[?c] \<noteq> []"
    by simp
  note w = csv_truncation [where h = utcHost and api = longApi and own = "''acme''"
      and rep = "''widgets''" and yr = 2024 and mo = 3 and commits = "[?c]" and logs = "[]"
      and argv = sampleArgv and args = sampleArgs and commit = ?c]
  have row: "commitCsvRow ''acme'' ?c =
      ''03/15/2024 5:07 PM,acme,widgets,dev,1,0,'' @ [dquote]
       @ join '','' (map (\<lambda>i. ''f'' @ natToString i) [0 ..< 49] @ [''...and 2 more files''])
       @ [dquote] @ '',a;b '' @ replicate 1017 (CHR ''x'') @ ''...''"
  proof -
    have "commitCsvRow ''acme'' ?c =
        date ?c @ '','' @ ''acme'' @ '','' @ Commit.repo ?c @ '','' @ Commit.author ?c @ '',''
          @ toString (additions ?c) @ '','' @ toString (deletions ?c) @ '',''
          @ [dquote] @ join '','' (take 49 (files ?c) @ [''...and 2 more files''])
          @ [dquote] @ '','' @ take 1021 (escaped (message ?c)) @ ''...''"
      using w l long_commit_fields(2) by blast
    then show ?thesis
      by (simp add: long_commit_fields)
  qed
  have rep: "commits_generateMonthlyReport utcHost longApi sampleArgv ''acme'' ''widgets'' 2024 3 =
        Some (Inr (Some (
          ''# GitHub Commits in '' @ ''widgets'' @ '' owned by '' @ ''acme'' @ '' for ''
            @ monthLong utcHost (newDate (LocalTZA utcHost) 2024 (3 - 1) 1) @ '' ''
            @ toString 2024 @ [newline, newline]
          @ ''```csv'' @ [newline]
          @ join [newline]
              (''Date,Owner,Repository,Author,Additions,Deletions,Files,Message''
                 # map (commitCsvRow ''acme'') [?c])
          @ ''```'' @ [newline, newline])), [])"
    using w long_commit_fetched ne parse_sampleArgv fmt by blast
  have y: "toString 2024 = ''2024''"
    by code_simp
  have "commits_generateMonthlyReport utcHost longApi sampleArgv ''acme'' ''widgets'' 2024 3 =
     Some (Inr (Some (
       ''# GitHub Commits in widgets owned by acme for March 2024'' @ [newline, newline]
       @ ''```csv'' @ [newline]
       @ ''Date,Owner,Repository,Author,Additions,Deletions,Files,Message'' @ [newline]
       @ ''03/15/2024 5:07 PM,acme,widgets,dev,1,0,'' @ [dquote]
       @ join '','' (map (\<lambda>i. ''f'' @ natToString i) [0 ..< 49] @ [''...and 2 more files''])
       @ [dquote] @ '',a;b '' @ replicate 1017 (CHR ''x'') @ ''...''
       @ ''```'' @ [newline, newline])), [])"
    unfolding rep by (simp add: month_name_march y row)
  then show ?thesis
    using long_commit_fetched parse_sampleArgv fmt l long_commit_fields(2) by simp
qed

end
